theory Spec2Isabelle
  imports Main "HOL-Library.Sublist" "HOL-Library.Word"
begin

section \<open>Text and characters\<close>

text \<open>
  The generated control scripts are modelled as the byte sequences that
  \<^verbatim>\<open>fs.writeFileSync\<close> puts on disk (UTF-8): a \<^typ>\<open>string\<close> is a list of bytes,
  and every character of the source's template literals outside ASCII is spelled out
  as its UTF-8 encoding. The inputs (project name, service fields) are byte strings in
  the same encoding. Concatenation and the search for an ASCII needle commute with the
  encoding, so the model computes the text the JavaScript computes.
\<close>

definition e_acute :: string where "e_acute = [CHR 0xC3, CHR 0xA9]"
definition e_grave :: string where "e_grave = [CHR 0xC3, CHR 0xA8]"
definition e_circ :: string where "e_circ = [CHR 0xC3, CHR 0xAA]"
definition warning_sign :: string where "warning_sign = [CHR 0xE2, CHR 0x9A, CHR 0xA0]"
definition check_mark :: string where "check_mark = [CHR 0xE2, CHR 0x9C, CHR 0x94]"
definition right_arrow :: string where "right_arrow = [CHR 0xE2, CHR 0x86, CHR 0x92]"
definition ballot_x :: string where "ballot_x = [CHR 0xE2, CHR 0x9C, CHR 0x97]"
definition box_horizontal :: string where "box_horizontal = [CHR 0xE2, CHR 0x94, CHR 0x80]"
definition single_quote :: string where "single_quote = [CHR 0x27]"

text \<open>\<^verbatim>\<open>String.prototype.includes\<close>: the needle occurs at some position.\<close>

fun js_includes :: "string \<Rightarrow> string \<Rightarrow> bool" where
  "js_includes [] needle = (needle = [])"
| "js_includes (c # cs) needle = (prefix needle (c # cs) \<or> js_includes cs needle)"

text \<open>\<^verbatim>\<open>Array.prototype.join\<close> on strings.\<close>

fun join :: "string list \<Rightarrow> string \<Rightarrow> string" where
  "join [] sep = []"
| "join [x] sep = x"
| "join (x # y # ys) sep = x @ sep @ join (y # ys) sep"

section \<open>Services\<close>

text \<open>
  A service entry of a project's configuration, as the API layer stores it
  (\<^verbatim>\<open>POST /projects/:name/services\<close> fills \<open>directory\<close> and \<open>command\<close> with
  defaults, so they are strings). \<open>pm2Name\<close> is an optional field read by the file
  routes only.
\<close>

record service =
  name :: string
  directory :: string
  command :: string
  description :: string
  setupCommands :: "string list"
  pm2Name :: "string option"

section \<open>Script generation (modules/scripts.js)\<close>

subsection \<open>start.sh\<close>

definition start_header :: "string \<Rightarrow> string" where
  \<open>start_header projectName =
     ''#!/bin/bash\<newline>'' @
     ''# ============================================\<newline>'' @
     ''# Script de d'' @ e_acute @ ''marrage des services\<newline>'' @
     ''# Projet: '' @ projectName @ ''\<newline>'' @
     ''# G'' @ e_acute @ ''n'' @ e_acute @ ''r'' @ e_acute @ '' automatiquement - Ne pas modifier\<newline>'' @
     ''# ============================================\<newline>'' @
     ''\<newline>'' @
     ''set -e\<newline>'' @
     ''\<newline>'' @
     ''echo "=========================================="\<newline>'' @
     ''echo "  D'' @ e_acute @ ''marrage des services: '' @ projectName @ ''"\<newline>'' @
     ''echo "=========================================="\<newline>'' @
     ''echo ""\<newline>'' @
     ''\<newline>'' @
     ''# V'' @ e_acute @ ''rifier si PM2 est install'' @ e_acute @ ''\<newline>'' @
     ''if ! command -v pm2 &> /dev/null; then\<newline>'' @
     ''    echo "ERREUR: PM2 n\'est pas install'' @ e_acute @ ''"\<newline>'' @
     ''    echo "Installez-le avec: npm install -g pm2"\<newline>'' @
     ''    exit 1\<newline>'' @
     ''fi\<newline>'' @
     ''\<newline>''\<close>

text \<open>One iteration of the loop over the services: the script text after the iteration.\<close>

definition start_service_step :: "string \<Rightarrow> string \<Rightarrow> service \<Rightarrow> string" where
  \<open>start_service_step projectName script service =
     (let pm2Name = projectName @ ''-'' @ name service;
         script = script @ ''# Service: '' @ name service @ ''\<newline>'';
         script = script @ ''echo "D'' @ e_acute @ ''marrage de '' @ name service @ ''..."\<newline>'';
         script = script @ ''cd "'' @ directory service @ ''"\<newline>'';
         script =
           (if command service \<noteq> [] \<and>
               (js_includes (command service) ''build'' \<or> js_includes (command service) ''tsc'')
            then script @
              ''echo "'' @ warning_sign @ '' ATTENTION: La commande '' @ single_quote @ command service @ single_quote @ '' semble '' @ e_circ @ ''tre un build"\<newline>'' @
              ''echo "'' @ warning_sign @ '' PM2 va red'' @ e_acute @ ''marrer en boucle car le build se termine"\<newline>'' @
              ''echo "'' @ warning_sign @ '' Utilisez \'npm start\' ou \'npx vite preview\' pour un serveur"\<newline>'' @
              ''echo ""\<newline>''
            else script);
         script = script @ ''pm2 start "'' @ command service @ ''" --name "'' @ pm2Name @ ''" --cwd "'' @ directory service @ ''" 2>/dev/null || pm2 restart "'' @ pm2Name @ ''"\<newline>'';
         script = script @ ''echo "  '' @ check_mark @ '' '' @ name service @ '' d'' @ e_acute @ ''marr'' @ e_acute @ ''"\<newline>'';
         script = script @ ''echo ""\<newline>'' @
            ''\<newline>''
      in script)\<close>

definition generateStartScript :: "string \<Rightarrow> service list \<Rightarrow> string" where
  \<open>generateStartScript projectName services =
     (let script = start_header projectName in
      if length services = 0 then
        (let script = script @ ''echo "Aucun service configur'' @ e_acute @ '' pour ce projet"\<newline>'';
             script = script @ ''exit 0\<newline>''
         in script)
      else
        (let script = foldl (start_service_step projectName) script services;
             script = script @ ''# Sauvegarder la configuration PM2\<newline>'';
             script = script @ ''pm2 save\<newline>'' @
                ''\<newline>'';
             script = script @
               ''echo "=========================================="\<newline>'' @
               ''echo "  Tous les services ont '' @ e_acute @ ''t'' @ e_acute @ '' d'' @ e_acute @ ''marr'' @ e_acute @ ''s"\<newline>'' @
               ''echo "=========================================="\<newline>'' @
               ''echo ""\<newline>'' @
               ''echo "Utilisez \'pm2 status\' pour voir l'' @ single_quote @ e_acute @ ''tat des services"\<newline>'' @
               ''echo "Utilisez \'pm2 logs\' pour voir les logs"\<newline>''
         in script))\<close>

subsection \<open>stop.sh\<close>

definition stop_header :: "string \<Rightarrow> string" where
  \<open>stop_header projectName =
     ''#!/bin/bash\<newline>'' @
     ''# ============================================\<newline>'' @
     ''# Script d\'arr'' @ e_circ @ ''t des services\<newline>'' @
     ''# Projet: '' @ projectName @ ''\<newline>'' @
     ''# G'' @ e_acute @ ''n'' @ e_acute @ ''r'' @ e_acute @ '' automatiquement - Ne pas modifier\<newline>'' @
     ''# ============================================\<newline>'' @
     ''\<newline>'' @
     ''set -e\<newline>'' @
     ''\<newline>'' @
     ''echo "=========================================="\<newline>'' @
     ''echo "  Arr'' @ e_circ @ ''t des services: '' @ projectName @ ''"\<newline>'' @
     ''echo "=========================================="\<newline>'' @
     ''echo ""\<newline>'' @
     ''\<newline>'' @
     ''# V'' @ e_acute @ ''rifier si PM2 est install'' @ e_acute @ ''\<newline>'' @
     ''if ! command -v pm2 &> /dev/null; then\<newline>'' @
     ''    echo "ERREUR: PM2 n\'est pas install'' @ e_acute @ ''"\<newline>'' @
     ''    exit 1\<newline>'' @
     ''fi\<newline>'' @
     ''\<newline>''\<close>

definition stop_service_step :: "string \<Rightarrow> string \<Rightarrow> service \<Rightarrow> string" where
  \<open>stop_service_step projectName script service =
     (let pm2Name = projectName @ ''-'' @ name service;
         script = script @ ''# Service: '' @ name service @ ''\<newline>'';
         script = script @ ''echo "Arr'' @ e_circ @ ''t de '' @ name service @ ''..."\<newline>'';
         script = script @ ''pm2 stop "'' @ pm2Name @ ''" 2>/dev/null || echo "  (non actif)"\<newline>'';
         script = script @ ''echo "  '' @ check_mark @ '' '' @ name service @ '' arr'' @ e_circ @ ''t'' @ e_acute @ ''"\<newline>'';
         script = script @ ''echo ""\<newline>'' @
            ''\<newline>''
      in script)\<close>

definition generateStopScript :: "string \<Rightarrow> service list \<Rightarrow> string" where
  \<open>generateStopScript projectName services =
     (let script = stop_header projectName in
      if length services = 0 then
        (let script = script @ ''echo "Aucun service configur'' @ e_acute @ '' pour ce projet"\<newline>'';
             script = script @ ''exit 0\<newline>''
         in script)
      else
        (let script = foldl (stop_service_step projectName) script services;
             script = script @ ''# Sauvegarder la configuration PM2\<newline>'';
             script = script @ ''pm2 save\<newline>'' @
                ''\<newline>'';
             script = script @
               ''echo "=========================================="\<newline>'' @
               ''echo "  Tous les services ont '' @ e_acute @ ''t'' @ e_acute @ '' arr'' @ e_circ @ ''t'' @ e_acute @ ''s"\<newline>'' @
               ''echo "=========================================="\<newline>''
         in script))\<close>

subsection \<open>restart.sh\<close>

definition restart_header :: "string \<Rightarrow> string" where
  \<open>restart_header projectName =
     ''#!/bin/bash\<newline>'' @
     ''# ============================================\<newline>'' @
     ''# Script de red'' @ e_acute @ ''marrage des services\<newline>'' @
     ''# Projet: '' @ projectName @ ''\<newline>'' @
     ''# G'' @ e_acute @ ''n'' @ e_acute @ ''r'' @ e_acute @ '' automatiquement - Ne pas modifier\<newline>'' @
     ''# ============================================\<newline>'' @
     ''\<newline>'' @
     ''set -e\<newline>'' @
     ''\<newline>'' @
     ''echo "=========================================="\<newline>'' @
     ''echo "  Red'' @ e_acute @ ''marrage des services: '' @ projectName @ ''"\<newline>'' @
     ''echo "=========================================="\<newline>'' @
     ''echo ""\<newline>'' @
     ''\<newline>'' @
     ''# V'' @ e_acute @ ''rifier si PM2 est install'' @ e_acute @ ''\<newline>'' @
     ''if ! command -v pm2 &> /dev/null; then\<newline>'' @
     ''    echo "ERREUR: PM2 n\'est pas install'' @ e_acute @ ''"\<newline>'' @
     ''    exit 1\<newline>'' @
     ''fi\<newline>'' @
     ''\<newline>''\<close>

definition restart_service_step :: "string \<Rightarrow> string \<Rightarrow> service \<Rightarrow> string" where
  \<open>restart_service_step projectName script service =
     (let pm2Name = projectName @ ''-'' @ name service;
         script = script @ ''# Service: '' @ name service @ ''\<newline>'';
         script = script @ ''echo "Red'' @ e_acute @ ''marrage de '' @ name service @ ''..."\<newline>'';
         script = script @ ''pm2 restart "'' @ pm2Name @ ''" 2>/dev/null || echo "  (d'' @ e_acute @ ''marrage initial...)"\<newline>'';
         script = script @ ''echo "  '' @ check_mark @ '' '' @ name service @ '' red'' @ e_acute @ ''marr'' @ e_acute @ ''"\<newline>'';
         script = script @ ''echo ""\<newline>'' @
            ''\<newline>''
      in script)\<close>

definition generateRestartScript :: "string \<Rightarrow> service list \<Rightarrow> string" where
  \<open>generateRestartScript projectName services =
     (let script = restart_header projectName in
      if length services = 0 then
        (let script = script @ ''echo "Aucun service configur'' @ e_acute @ '' pour ce projet"\<newline>'';
             script = script @ ''exit 0\<newline>''
         in script)
      else
        (let script = foldl (restart_service_step projectName) script services;
             script = script @ ''# Sauvegarder la configuration PM2\<newline>'';
             script = script @ ''pm2 save\<newline>'' @
                ''\<newline>'';
             script = script @
               ''echo "=========================================="\<newline>'' @
               ''echo "  Tous les services ont '' @ e_acute @ ''t'' @ e_acute @ '' red'' @ e_acute @ ''marr'' @ e_acute @ ''s"\<newline>'' @
               ''echo "=========================================="\<newline>''
         in script))\<close>

subsection \<open>deploy.sh\<close>

definition deploy_header :: "string \<Rightarrow> string" where
  \<open>deploy_header projectName =
     ''#!/bin/bash\<newline>'' @
     ''# ============================================\<newline>'' @
     ''# Script de d'' @ e_acute @ ''ploiement\<newline>'' @
     ''# Projet: '' @ projectName @ ''\<newline>'' @
     ''# G'' @ e_acute @ ''n'' @ e_acute @ ''r'' @ e_acute @ '' automatiquement - Ne pas modifier\<newline>'' @
     ''# ============================================\<newline>'' @
     ''\<newline>'' @
     ''set -e\<newline>'' @
     ''\<newline>'' @
     ''echo "=========================================="\<newline>'' @
     ''echo "  D'' @ e_acute @ ''ploiement: '' @ projectName @ ''"\<newline>'' @
     ''echo "=========================================="\<newline>'' @
     ''echo ""\<newline>'' @
     ''\<newline>'' @
     ''# Fonction pour corriger les permissions\<newline>'' @
     ''fix_permissions() {\<newline>'' @
     ''    local dir="$1"\<newline>'' @
     ''    local user="$2"\<newline>'' @
     ''    \<newline>'' @
     ''    echo "Correction des permissions pour: $dir"\<newline>'' @
     ''    \<newline>'' @
     ''    # V'' @ e_acute @ ''rifier si on a les droits sudo\<newline>'' @
     ''    if sudo -n true 2>/dev/null; then\<newline>'' @
     ''        echo "  '' @ right_arrow @ '' Changement du propri'' @ e_acute @ ''taire..."\<newline>'' @
     ''        sudo chown -R "$user:$user" "$dir"\<newline>'' @
     ''        echo "  '' @ right_arrow @ '' Ajustement des permissions..."\<newline>'' @
     ''        sudo chmod -R u+rwX,g+rX,o+rX "$dir"\<newline>'' @
     ''        echo "  '' @ check_mark @ '' Permissions corrig'' @ e_acute @ ''es"\<newline>'' @
     ''    else\<newline>'' @
     ''        echo "  '' @ warning_sign @ '' Sudo requis pour corriger les permissions"\<newline>'' @
     ''        echo "  Ex'' @ e_acute @ ''cutez: sudo chown -R $user:$user $dir"\<newline>'' @
     ''        exit 1\<newline>'' @
     ''    fi\<newline>'' @
     ''}\<newline>'' @
     ''\<newline>''\<close>

definition deploy_service_step :: "string \<Rightarrow> string \<Rightarrow> service \<Rightarrow> string" where
  \<open>deploy_service_step projectName script service =
     (let script = script @ ''# Service: '' @ name service @ ''\<newline>'';
         script = script @ ''echo "D'' @ e_acute @ ''ploiement de '' @ name service @ ''..."\<newline>'';
         script = script @ ''cd "'' @ directory service @ ''"\<newline>'' @
            ''\<newline>'';
         script = script @ ''# V'' @ e_acute @ ''rifier et corriger les permissions si n'' @ e_acute @ ''cessaire\<newline>'';
         script = script @ ''if [ ! -w "'' @ directory service @ ''" ]; then\<newline>'';
         script = script @ ''    echo "  '' @ warning_sign @ '' Permissions insuffisantes"\<newline>'';
         script = script @ ''    fix_permissions "'' @ directory service @ ''" "$CURRENT_USER"\<newline>'';
         script = script @ ''fi\<newline>'' @
            ''\<newline>'';
         script = script @ ''# Installer les d'' @ e_acute @ ''pendances\<newline>'';
         script = script @ ''if [ -f "package.json" ]; then\<newline>'';
         script = script @ ''    echo "  '' @ right_arrow @ '' Installation des d'' @ e_acute @ ''pendances npm..."\<newline>'';
         script = script @ ''    npm install || {\<newline>'';
         script = script @ ''        echo "  '' @ ballot_x @ '' Erreur lors de npm install"\<newline>'';
         script = script @ ''        echo "  Tentative de correction des permissions..."\<newline>'';
         script = script @ ''        fix_permissions "'' @ directory service @ ''" "$CURRENT_USER"\<newline>'';
         script = script @ ''        npm install || exit 1\<newline>'';
         script = script @ ''    }\<newline>'';
         script = script @ ''    echo "  '' @ check_mark @ '' D'' @ e_acute @ ''pendances install'' @ e_acute @ ''es"\<newline>'';
         script = script @ ''fi\<newline>'' @
            ''\<newline>'';
         script = script @ ''# Build si n'' @ e_acute @ ''cessaire\<newline>'';
         script = script @ ''if grep -q \'"build"\' package.json 2>/dev/null; then\<newline>'';
         script = script @ ''    echo "  '' @ right_arrow @ '' Build de l\'application..."\<newline>'';
         script = script @ ''    npm run build 2>/dev/null || echo "  (pas de build configur'' @ e_acute @ '')"\<newline>'';
         script = script @ ''fi\<newline>'' @
            ''\<newline>'';
         script = script @ ''echo "  '' @ check_mark @ '' '' @ name service @ '' d'' @ e_acute @ ''ploy'' @ e_acute @ ''"\<newline>'';
         script = script @ ''echo ""\<newline>'' @
            ''\<newline>''
      in script)\<close>

definition generateDeployScript :: "string \<Rightarrow> service list \<Rightarrow> string" where
  \<open>generateDeployScript projectName services =
     (let script = deploy_header projectName in
      if length services = 0 then
        (let script = script @ ''echo "Aucun service configur'' @ e_acute @ '' pour ce projet"\<newline>''
         in script)
      else
        (let script = script @ ''# D'' @ e_acute @ ''ploiement de chaque service\<newline>'';
             script = script @ ''CURRENT_USER=$(whoami)\<newline>'' @
                ''\<newline>'';
             script = foldl (deploy_service_step projectName) script services;
             script = script @ ''echo "=========================================="\<newline>'';
             script = script @ ''echo "  D'' @ e_acute @ ''ploiement termin'' @ e_acute @ ''"\<newline>'';
             script = script @ ''echo "=========================================="\<newline>'';
             script = script @ ''echo ""\<newline>'';
             script = script @ ''echo "Utilisez \'./scripts/start.sh\' pour d'' @ e_acute @ ''marrer les services"\<newline>''
         in script))\<close>

subsection \<open>status.sh\<close>

definition status_header :: "string \<Rightarrow> string" where
  \<open>status_header projectName =
     ''#!/bin/bash\<newline>'' @
     ''# ============================================\<newline>'' @
     ''# Script de statut des services\<newline>'' @
     ''# Projet: '' @ projectName @ ''\<newline>'' @
     ''# G'' @ e_acute @ ''n'' @ e_acute @ ''r'' @ e_acute @ '' automatiquement - Ne pas modifier\<newline>'' @
     ''# ============================================\<newline>'' @
     ''\<newline>'' @
     ''echo "=========================================="\<newline>'' @
     ''echo "  Statut des services: '' @ projectName @ ''"\<newline>'' @
     ''echo "=========================================="\<newline>'' @
     ''echo ""\<newline>'' @
     ''\<newline>'' @
     ''# V'' @ e_acute @ ''rifier si PM2 est install'' @ e_acute @ ''\<newline>'' @
     ''if ! command -v pm2 &> /dev/null; then\<newline>'' @
     ''    echo "ERREUR: PM2 n\'est pas install'' @ e_acute @ ''"\<newline>'' @
     ''    exit 1\<newline>'' @
     ''fi\<newline>'' @
     ''\<newline>''\<close>

text \<open>
  The filter expression of \<^verbatim>\<open>status.sh\<close>: the handles of the services, joined by
  \<^verbatim>\<open>|\<close>, then the two alternatives for the header and the separator lines.
\<close>

definition handles :: "string \<Rightarrow> service list \<Rightarrow> string list" where
  \<open>handles projectName services = map (\<lambda>s. projectName @ ''-'' @ name s) services\<close>

definition generateStatusScript :: "string \<Rightarrow> service list \<Rightarrow> string" where
  \<open>generateStatusScript projectName services =
     (let script = status_header projectName in
      if length services = 0 then
        (let script = script @ ''echo "Aucun service configur'' @ e_acute @ '' pour ce projet"\<newline>''
         in script)
      else
        (let script = script @ ''# Afficher le statut de tous les services du projet\<newline>'';
             script = script @ ''pm2 list | grep -E "('' @ join (handles projectName services) ''|'' @
               ''|Name|'' @ box_horizontal @ '')" || echo "Aucun service actif"\<newline>''
         in script))\<close>

text \<open>
  Modelled from the spec: \<^verbatim>\<open>services.removeService\<close> (modules/services.js is not
  among the sources) "deletes the config entry" of the named service; the stored list
  keeps the other entries in their order.
\<close>

definition removeService :: "string \<Rightarrow> service list \<Rightarrow> service list" where
  "removeService serviceName services = filter (\<lambda>s. name s \<noteq> serviceName) services"

text \<open>The message that every script prints for a project without services.\<close>

definition no_service_message :: string where
  \<open>no_service_message =
     ''echo "Aucun service configur'' @ e_acute @ '' pour ce projet"\<newline>''\<close>

text \<open>The fields of a service that the generators read.\<close>

definition rendered_fields :: "service \<Rightarrow> string \<times> string \<times> string" where
  "rendered_fields s = (name s, directory s, command s)"

text \<open>The text that \<^verbatim>\<open>generateStartScript\<close> appends after the loop over the services.\<close>

definition start_footer :: string where
  \<open>start_footer =
     ''# Sauvegarder la configuration PM2\<newline>'' @
     ''pm2 save\<newline>'' @
     ''\<newline>'' @
     ''echo "=========================================="\<newline>'' @
     ''echo "  Tous les services ont '' @ e_acute @ ''t'' @ e_acute @ '' d'' @ e_acute @ ''marr'' @ e_acute @ ''s"\<newline>'' @
     ''echo "=========================================="\<newline>'' @
     ''echo ""\<newline>'' @
     ''echo "Utilisez \'pm2 status\' pour voir l'' @ single_quote @ e_acute @ ''tat des services"\<newline>'' @
     ''echo "Utilisez \'pm2 logs\' pour voir les logs"\<newline>''\<close>

text \<open>
  The supervisor invocation of one service in \<^verbatim>\<open>start.sh\<close>: start under the handle,
  and restart the same handle when the start fails.
\<close>

definition start_invocation :: "string \<Rightarrow> service \<Rightarrow> string" where
  \<open>start_invocation projectName service =
     ''pm2 start "'' @ command service @ ''" --name "'' @ projectName @ ''-'' @ name service @
     ''" --cwd "'' @ directory service @ ''" 2>/dev/null || pm2 restart "'' @
     projectName @ ''-'' @ name service @ ''"\<newline>''\<close>

subsection \<open>The text of one service\<close>

text \<open>
  What each script is to hold for one service, written out as one text in which the
  project name \<open>p\<close> and the name \<open>n\<close>, the directory \<open>d\<close> and the command \<open>c\<close> of the
  service are filled in; and the fixed texts that follow the services. The generators
  above build their texts in a loop that appends to a variable; the theorem on
  determinism compares them with these texts.
\<close>

definition start_block :: "string \<Rightarrow> string \<times> string \<times> string \<Rightarrow> string" where
  \<open>start_block p = (\<lambda>(n, d, c).
        ''# Service: '' @ n @ ''\<newline>'' @
        ''echo "D'' @ e_acute @ ''marrage de '' @ n @ ''..."\<newline>'' @
        ''cd "'' @ d @ ''"\<newline>'' @
        (if c \<noteq> [] \<and> (js_includes c ''build'' \<or> js_includes c ''tsc'')
         then ''echo "'' @ warning_sign @ '' ATTENTION: La commande '' @ single_quote @ c @ single_quote @ '' semble '' @ e_circ @ ''tre un build"\<newline>'' @
              ''echo "'' @ warning_sign @ '' PM2 va red'' @ e_acute @ ''marrer en boucle car le build se termine"\<newline>'' @
              ''echo "'' @ warning_sign @ '' Utilisez \'npm start\' ou \'npx vite preview\' pour un serveur"\<newline>'' @
              ''echo ""\<newline>''
         else []) @
        ''pm2 start "'' @ c @ ''" --name "'' @ p @ ''-'' @ n @ ''" --cwd "'' @ d @ ''" 2>/dev/null || pm2 restart "'' @ p @ ''-'' @ n @ ''"\<newline>'' @
        ''echo "  '' @ check_mark @ '' '' @ n @ '' d'' @ e_acute @ ''marr'' @ e_acute @ ''"\<newline>'' @
        ''echo ""\<newline>'' @
        ''\<newline>'')\<close>

definition stop_block :: "string \<Rightarrow> string \<times> string \<times> string \<Rightarrow> string" where
  \<open>stop_block p = (\<lambda>(n, d, c).
        ''# Service: '' @ n @ ''\<newline>'' @
        ''echo "Arr'' @ e_circ @ ''t de '' @ n @ ''..."\<newline>'' @
        ''pm2 stop "'' @ p @ ''-'' @ n @ ''" 2>/dev/null || echo "  (non actif)"\<newline>'' @
        ''echo "  '' @ check_mark @ '' '' @ n @ '' arr'' @ e_circ @ ''t'' @ e_acute @ ''"\<newline>'' @
        ''echo ""\<newline>'' @
        ''\<newline>'')\<close>

definition restart_block :: "string \<Rightarrow> string \<times> string \<times> string \<Rightarrow> string" where
  \<open>restart_block p = (\<lambda>(n, d, c).
        ''# Service: '' @ n @ ''\<newline>'' @
        ''echo "Red'' @ e_acute @ ''marrage de '' @ n @ ''..."\<newline>'' @
        ''pm2 restart "'' @ p @ ''-'' @ n @ ''" 2>/dev/null || echo "  (d'' @ e_acute @ ''marrage initial...)"\<newline>'' @
        ''echo "  '' @ check_mark @ '' '' @ n @ '' red'' @ e_acute @ ''marr'' @ e_acute @ ''"\<newline>'' @
        ''echo ""\<newline>'' @
        ''\<newline>'')\<close>

definition deploy_block :: "string \<times> string \<times> string \<Rightarrow> string" where
  \<open>deploy_block = (\<lambda>(n, d, c).
        ''# Service: '' @ n @ ''\<newline>'' @
        ''echo "D'' @ e_acute @ ''ploiement de '' @ n @ ''..."\<newline>'' @
        ''cd "'' @ d @ ''"\<newline>'' @
        ''\<newline>'' @
        ''# V'' @ e_acute @ ''rifier et corriger les permissions si n'' @ e_acute @ ''cessaire\<newline>'' @
        ''if [ ! -w "'' @ d @ ''" ]; then\<newline>'' @
        ''    echo "  '' @ warning_sign @ '' Permissions insuffisantes"\<newline>'' @
        ''    fix_permissions "'' @ d @ ''" "$CURRENT_USER"\<newline>'' @
        ''fi\<newline>'' @
        ''\<newline>'' @
        ''# Installer les d'' @ e_acute @ ''pendances\<newline>'' @
        ''if [ -f "package.json" ]; then\<newline>'' @
        ''    echo "  '' @ right_arrow @ '' Installation des d'' @ e_acute @ ''pendances npm..."\<newline>'' @
        ''    npm install || {\<newline>'' @
        ''        echo "  '' @ ballot_x @ '' Erreur lors de npm install"\<newline>'' @
        ''        echo "  Tentative de correction des permissions..."\<newline>'' @
        ''        fix_permissions "'' @ d @ ''" "$CURRENT_USER"\<newline>'' @
        ''        npm install || exit 1\<newline>'' @
        ''    }\<newline>'' @
        ''    echo "  '' @ check_mark @ '' D'' @ e_acute @ ''pendances install'' @ e_acute @ ''es"\<newline>'' @
        ''fi\<newline>'' @
        ''\<newline>'' @
        ''# Build si n'' @ e_acute @ ''cessaire\<newline>'' @
        ''if grep -q \'"build"\' package.json 2>/dev/null; then\<newline>'' @
        ''    echo "  '' @ right_arrow @ '' Build de l\'application..."\<newline>'' @
        ''    npm run build 2>/dev/null || echo "  (pas de build configur'' @ e_acute @ '')"\<newline>'' @
        ''fi\<newline>'' @
        ''\<newline>'' @
        ''echo "  '' @ check_mark @ '' '' @ n @ '' d'' @ e_acute @ ''ploy'' @ e_acute @ ''"\<newline>'' @
        ''echo ""\<newline>'' @
        ''\<newline>'')\<close>

definition stop_footer :: string where
  \<open>stop_footer =
     ''# Sauvegarder la configuration PM2\<newline>'' @
     ''pm2 save\<newline>'' @
     ''\<newline>'' @
     ''echo "=========================================="\<newline>'' @
     ''echo "  Tous les services ont '' @ e_acute @ ''t'' @ e_acute @ '' arr'' @ e_circ @ ''t'' @ e_acute @ ''s"\<newline>'' @
     ''echo "=========================================="\<newline>''\<close>

definition restart_footer :: string where
  \<open>restart_footer =
     ''# Sauvegarder la configuration PM2\<newline>'' @
     ''pm2 save\<newline>'' @
     ''\<newline>'' @
     ''echo "=========================================="\<newline>'' @
     ''echo "  Tous les services ont '' @ e_acute @ ''t'' @ e_acute @ '' red'' @ e_acute @ ''marr'' @ e_acute @ ''s"\<newline>'' @
     ''echo "=========================================="\<newline>''\<close>

definition deploy_intro :: string where
  \<open>deploy_intro =
     ''# D'' @ e_acute @ ''ploiement de chaque service\<newline>'' @
     ''CURRENT_USER=$(whoami)\<newline>'' @
     ''\<newline>''\<close>

definition deploy_footer :: string where
  \<open>deploy_footer =
     ''echo "=========================================="\<newline>'' @
     ''echo "  D'' @ e_acute @ ''ploiement termin'' @ e_acute @ ''"\<newline>'' @
     ''echo "=========================================="\<newline>'' @
     ''echo ""\<newline>'' @
     ''echo "Utilisez \'./scripts/start.sh\' pour d'' @ e_acute @ ''marrer les services"\<newline>''\<close>

subsection \<open>The example project\<close>

definition shop_services :: "service list" where
  "shop_services =
     [\<lparr>name = ''api'', directory = ''api'', command = ''serve'', description = '''',
        setupCommands = [], pm2Name = None\<rparr>,
      \<lparr>name = ''web'', directory = ''web'', command = ''serve-web'', description = '''',
        setupCommands = [], pm2Name = None\<rparr>]"

text \<open>A service whose command has line breaks in it.\<close>

definition multiline_service :: service where
  \<open>multiline_service =
     \<lparr>name = ''api'', directory = ''api'', command = ''a"\<newline>pm2 save\<newline>echo "'',
      description = '''', setupCommands = [], pm2Name = None\<rparr>\<close>

text \<open>
  \<^verbatim>\<open>grep -E\<close> and \<^verbatim>\<open>pm2 list\<close> are external tools; what the claims need of them is
  written down here. The expression \<^verbatim>\<open>(a|b|c)\<close> is the alternation of its literal
  alternatives, and \<^verbatim>\<open>grep -E\<close> selects the lines in which one alternative occurs
  somewhere. \<^verbatim>\<open>pm2 list\<close> prints a table: border lines drawn with the character U+2500, and one row
  per process whose cells are separated by the vertical bar U+2502, the second cell
  holding the process name padded with spaces.
\<close>

definition ere_alternation :: "string list \<Rightarrow> string" where
  "ere_alternation alts = ''('' @ join alts ''|'' @ '')''"

definition grep_E_alternation :: "string list \<Rightarrow> string \<Rightarrow> bool" where
  "grep_E_alternation alts line = list_ex (js_includes line) alts"

definition vertical_bar :: string where "vertical_bar = [CHR 0xE2, CHR 0x94, CHR 0x82]"

definition pm2_row :: "string \<Rightarrow> string \<Rightarrow> nat \<Rightarrow> string \<Rightarrow> string" where
  "pm2_row ident handle pad rest =
     vertical_bar @ '' '' @ ident @ '' '' @ vertical_bar @ '' '' @ handle @
     replicate pad CHR '' '' @ '' '' @ vertical_bar @ rest"

subsection \<open>Lines of a text\<close>

text \<open>\<^verbatim>\<open>String.prototype.split\<close> with a separator of one character.\<close>

fun split_on :: "char \<Rightarrow> string \<Rightarrow> string list" where
  "split_on sep [] = [[]]"
| "split_on sep (c # cs) =
     (if c = sep then [] # split_on sep cs
      else (case split_on sep cs of [] \<Rightarrow> [[c]] | l # ls \<Rightarrow> (c # l) # ls))"

definition script_lines :: "string \<Rightarrow> string list" where
  "script_lines text = split_on CHR ''\<newline>'' text"

definition single_line :: "string \<Rightarrow> bool" where
  "single_line s = (CHR ''\<newline>'' \<notin> set s)"

definition ends_with_newline :: "string \<Rightarrow> bool" where
  "ends_with_newline t = (\<exists>a. t = a @ [CHR ''\<newline>''])"

text \<open>
  A one-pass count of the lines equal to \<open>x\<close>: the state is what remains of \<open>x\<close> to
  be read on the current line, or \<open>None\<close> once the line differs from \<open>x\<close>.
\<close>

fun advance :: "string option \<Rightarrow> char \<Rightarrow> string option" where
  "advance (Some (y # ys)) c = (if y = c then Some ys else None)"
| "advance (Some []) c = None"
| "advance None c = None"

fun count_from :: "string \<Rightarrow> string option \<Rightarrow> string \<Rightarrow> nat" where
  "count_from x m [] = (if m = Some [] then 1 else 0)"
| "count_from x m (c # cs) =
     (if c = CHR ''\<newline>'' then (if m = Some [] then 1 else 0) + count_from x (Some x) cs
      else count_from x (advance m c) cs)"

subsection \<open>Running the script of a project without services\<close>

text \<open>
  The shell is an external tool; what the claim on the empty service list needs of it
  is written down here, for the kinds of lines that the scripts of a project without
  services are made of. A script is run line by line, leading spaces aside. A blank
  line, a comment and \<^verbatim>\<open>set -e\<close> do nothing. The line \<^verbatim>\<open>echo "text"\<close> prints the text,
  provided the text has none of the characters that the shell interprets between
  double quotes (the double quote, the dollar sign, the backquote and the backslash).
  \<^verbatim>\<open>exit 0\<close> and \<^verbatim>\<open>exit 1\<close> end the run with that status. The conditional
  \<^verbatim>\<open>if ! command -v pm2 &> /dev/null; then\<close> runs the lines up to its \<^verbatim>\<open>fi\<close> when no \<^verbatim>\<open>pm2\<close>
  is installed and skips them when one is. A function definition, from the line
  \<^verbatim>\<open>name() {\<close> to the closing brace at the start of a line, runs nothing. A script that
  reaches its end has the status of its last command, which for all of these is 0. Any
  other line is not understood, and the run says so.
\<close>

datatype run_result = Exited nat "string list" | NotUnderstood

definition plain_text :: "string \<Rightarrow> bool" where
  "plain_text s =
     list_all (\<lambda>c. c \<notin> set [CHR 0x22, CHR ''$'', CHR 0x60, CHR 0x5C, CHR ''\<newline>'']) s"

definition ltrim :: "string \<Rightarrow> string" where
  "ltrim l = dropWhile (\<lambda>c. c = CHR '' '') l"

definition echo_argument :: "string \<Rightarrow> string option" where
  \<open>echo_argument l =
     (if prefix ''echo "'' l
      then (let a = drop 6 l in
            if a \<noteq> [] \<and> last a = CHR 0x22 \<and> plain_text (butlast a) then Some (butlast a)
            else None)
      else None)\<close>

definition identifier_char :: "char \<Rightarrow> bool" where
  "identifier_char c =
     (c \<in> set ''abcdefghijklmnopqrstuvwxyzABCDEFGHIJKLMNOPQRSTUVWXYZ0123456789_'')"

definition function_header :: "string \<Rightarrow> bool" where
  "function_header l =
     (takeWhile identifier_char l \<noteq> [] \<and> dropWhile identifier_char l = ''() {'')"

text \<open>
  Where the run is: at the top level, in the lines of the conditional that are run,
  in the lines of the conditional that are skipped, in the body of a function
  definition.
\<close>

datatype shell_phase = Running | InThen | SkipThen | SkipFunction

fun run_lines :: "bool \<Rightarrow> shell_phase \<Rightarrow> string list \<Rightarrow> string list \<Rightarrow> run_result" where
  "run_lines pm2 phase out [] = (if phase = Running then Exited 0 out else NotUnderstood)"
| "run_lines pm2 SkipThen out (l # ls) =
     run_lines pm2 (if ltrim l = ''fi'' then Running else SkipThen) out ls"
| "run_lines pm2 SkipFunction out (l # ls) =
     run_lines pm2 (if l = ''}'' then Running else SkipFunction) out ls"
| "run_lines pm2 phase out (l # ls) =
     (let t = ltrim l in
      if t = [] \<or> hd t = CHR ''#'' \<or> t = ''set -e'' then run_lines pm2 phase out ls
      else if t = ''exit 0'' then Exited 0 out
      else if t = ''exit 1'' then Exited 1 out
      else if t = ''fi'' then
        (if phase = InThen then run_lines pm2 Running out ls else NotUnderstood)
      else if t = ''if ! command -v pm2 &> /dev/null; then'' then
        (if phase = Running then run_lines pm2 (if pm2 then SkipThen else InThen) out ls
         else NotUnderstood)
      else if function_header t then
        (if phase = Running then run_lines pm2 SkipFunction out ls else NotUnderstood)
      else (case echo_argument t of
              Some a \<Rightarrow> run_lines pm2 phase (out @ [a]) ls
            | None \<Rightarrow> NotUnderstood))"

text \<open>
  The run of a script text on a machine where \<^verbatim>\<open>pm2\<close> is installed (\<open>True\<close>) or is not:
  the exit status and the lines printed.
\<close>

definition run_script :: "bool \<Rightarrow> string \<Rightarrow> run_result" where
  "run_script pm2 text = run_lines pm2 Running [] (script_lines text)"

text \<open>The lines of a text, collected from left to right: \<open>cur\<close> is the line being read.\<close>

fun lines_from :: "string \<Rightarrow> string \<Rightarrow> string list" where
  "lines_from cur [] = [cur]"
| "lines_from cur (c # cs) =
     (if c = CHR ''\<newline>'' then cur # lines_from [] cs else lines_from (cur @ [c]) cs)"

text \<open>The rule that frames the title of every script, and the message on a project without services.\<close>

definition rule_line :: string where
  "rule_line = ''==========================================''"

definition no_service_text :: string where
  "no_service_text = ''Aucun service configur'' @ e_acute @ '' pour ce projet''"

definition pm2_missing_text :: string where
  \<open>pm2_missing_text = ''ERREUR: PM2 n\'est pas install'' @ e_acute\<close>

section \<open>Users and roles (modules/users.js)\<close>

text \<open>
  The user module compares strings for equality and takes the length of a password, so
  its strings are modelled as JavaScript has them, as sequences of UTF-16 code units;
  \<open>js\<close> embeds an ASCII literal.
\<close>

type_synonym jsstring = "16 word list"

definition js :: "string \<Rightarrow> jsstring" where
  "js s = map (\<lambda>c. of_nat (of_char c)) s"

text \<open>
  A stored user. The field \<open>user_id\<close> is the source's \<open>id\<close>. The administrator
  written by \<open>initUsersFile\<close> has no \<open>firstName\<close>, \<open>lastName\<close> and
  \<open>mustChangePassword\<close> field, hence the options.
\<close>

record user =
  user_id :: jsstring
  username :: jsstring
  firstName :: "jsstring option"
  lastName :: "jsstring option"
  password :: jsstring
  role :: jsstring
  mustChangePassword :: "bool option"
  createdAt :: jsstring
  projects :: "jsstring list"

text \<open>What a caller gets back: the user without the \<open>password\<close> field.\<close>

record user_public =
  pub_id :: jsstring
  pub_username :: jsstring
  pub_firstName :: "jsstring option"
  pub_lastName :: "jsstring option"
  pub_role :: jsstring
  pub_mustChangePassword :: "bool option"
  pub_createdAt :: jsstring
  pub_projects :: "jsstring list"

definition without_password :: "user \<Rightarrow> user_public" where
  "without_password u =
     \<lparr>pub_id = user_id u, pub_username = username u, pub_firstName = firstName u,
      pub_lastName = lastName u, pub_role = role u,
      pub_mustChangePassword = mustChangePassword u, pub_createdAt = createdAt u,
      pub_projects = projects u\<rparr>"

text \<open>
  The state the module works on: whether the data directory exists, and the parsed
  content of \<^verbatim>\<open>users.json\<close> (\<open>None\<close> when the file does not exist). The file is only
  ever written by this module, as the JSON of a user list, so reading it back gives
  that list.
\<close>

record users_store =
  data_dir :: bool
  users_file :: "user list option"

text \<open>
  What the module takes from the platform during a call: the values of
  \<^verbatim>\<open>crypto.randomUUID()\<close> and of \<^verbatim>\<open>new Date().toISOString()\<close>, numbered in the order in which
  the call draws them (\<open>initUsersFile\<close> draws one of each when it creates the users
  file, \<open>createUser\<close> one of each for the new user), and SHA-256 in hexadecimal.
\<close>

record platform =
  randomUUID :: "nat \<Rightarrow> jsstring"
  now_iso :: "nat \<Rightarrow> jsstring"
  sha256_hex :: "jsstring \<Rightarrow> jsstring"

text \<open>
  The errors thrown by the module, one constructor per message:
  \<open>UserExists\<close> "Un utilisateur avec ce nom existe deja",
  \<open>InvalidRole\<close> "Role invalide. Doit etre admin ou user",
  \<open>PasswordTooShort\<close> "Le mot de passe doit contenir au moins 6 caracteres",
  \<open>UserNotFound\<close> "Utilisateur non trouve",
  \<open>LastAdminDelete\<close> "Impossible de supprimer le dernier administrateur",
  \<open>LastAdminDemote\<close> "Impossible de retrograder le dernier administrateur",
  \<open>UsersFileMissing\<close> the failure of \<^verbatim>\<open>fs.readFileSync\<close> on a missing file.
\<close>

datatype user_error =
  UserExists | InvalidRole | PasswordTooShort | UserNotFound
  | LastAdminDelete | LastAdminDemote | UsersFileMissing

definition hashPassword :: "platform \<Rightarrow> jsstring \<Rightarrow> jsstring" where
  "hashPassword pf pw = sha256_hex pf pw"

definition initUsersFile :: "platform \<Rightarrow> users_store \<Rightarrow> users_store" where
  "initUsersFile pf st =
     (let st = (if \<not> data_dir st then st\<lparr>data_dir := True\<rparr> else st) in
      if users_file st = None then
        st\<lparr>users_file := Some
          [\<lparr>user_id = randomUUID pf 0, username = js ''admin'', firstName = None,
            lastName = None, password = hashPassword pf (js ''admin123''),
            role = js ''admin'', mustChangePassword = None, createdAt = now_iso pf 0,
            projects = []\<rparr>]\<rparr>
      else st)"

definition readUsers ::
  "platform \<Rightarrow> users_store \<Rightarrow> (user_error + user list) \<times> users_store" where
  "readUsers pf st =
     (let st = initUsersFile pf st in
      case users_file st of
        None \<Rightarrow> (Inl UsersFileMissing, st)
      | Some data \<Rightarrow> (Inr data, st))"

definition writeUsers :: "user list \<Rightarrow> users_store \<Rightarrow> users_store" where
  "writeUsers data st = st\<lparr>users_file := Some data\<rparr>"

text \<open>\<^verbatim>\<open>Array.prototype.findIndex\<close>, with \<open>None\<close> for \<open>-1\<close>.\<close>

fun findIndex :: "('a \<Rightarrow> bool) \<Rightarrow> 'a list \<Rightarrow> nat option" where
  "findIndex P [] = None"
| "findIndex P (x # xs) =
     (if P x then Some 0 else map_option Suc (findIndex P xs))"

definition createUser ::
  "platform \<Rightarrow> jsstring \<Rightarrow> jsstring \<Rightarrow> jsstring \<Rightarrow> bool \<Rightarrow> jsstring \<Rightarrow> jsstring \<Rightarrow>
     users_store \<Rightarrow> (user_error + user_public) \<times> users_store" where
  "createUser pf uname pw newRole mustChange firstN lastN st =
     (let drawn = (if users_file st = None then 1 else 0) in
      case readUsers pf st of
        (Inl e, st) \<Rightarrow> (Inl e, st)
      | (Inr data, st) \<Rightarrow>
          if find (\<lambda>u. username u = uname) data \<noteq> None then (Inl UserExists, st)
          else if newRole \<notin> set [js ''admin'', js ''user''] then (Inl InvalidRole, st)
          else if length pw < 6 then (Inl PasswordTooShort, st)
          else
            (let newUser =
               \<lparr>user_id = randomUUID pf drawn, username = uname, firstName = Some firstN,
                lastName = Some lastN, password = hashPassword pf pw, role = newRole,
                mustChangePassword = Some mustChange, createdAt = now_iso pf drawn,
                projects = []\<rparr>;
                 data = data @ [newUser];
                 st = writeUsers data st
             in (Inr (without_password newUser), st)))"

definition deleteUser ::
  "platform \<Rightarrow> jsstring \<Rightarrow> users_store \<Rightarrow> (user_error + unit) \<times> users_store" where
  "deleteUser pf userId st =
     (case readUsers pf st of
        (Inl e, st) \<Rightarrow> (Inl e, st)
      | (Inr data, st) \<Rightarrow>
          (case findIndex (\<lambda>u. user_id u = userId) data of
             None \<Rightarrow> (Inl UserNotFound, st)
           | Some index \<Rightarrow>
               (let u = data ! index in
                if username u = js ''admin'' \<and> role u = js ''admin'' \<and>
                   length (filter (\<lambda>u. role u = js ''admin'') data) = 1
                then (Inl LastAdminDelete, st)
                else
                  (let data = take index data @ drop (index + 1) data
                   in (Inr (), writeUsers data st)))))"

definition changeUserRole ::
  "platform \<Rightarrow> jsstring \<Rightarrow> jsstring \<Rightarrow> users_store \<Rightarrow> (user_error + unit) \<times> users_store" where
  "changeUserRole pf userId newRole st =
     (if newRole \<notin> set [js ''admin'', js ''user''] then (Inl InvalidRole, st)
      else
        (case readUsers pf st of
           (Inl e, st) \<Rightarrow> (Inl e, st)
         | (Inr data, st) \<Rightarrow>
             (case findIndex (\<lambda>u. user_id u = userId) data of
                None \<Rightarrow> (Inl UserNotFound, st)
              | Some index \<Rightarrow>
                  (let u = data ! index in
                   if role u = js ''admin'' \<and> newRole = js ''user'' \<and>
                      length (filter (\<lambda>u. role u = js ''admin'') data) = 1
                   then (Inl LastAdminDemote, st)
                   else
                     (let data = data[index := u\<lparr>role := newRole\<rparr>]
                      in (Inr (), writeUsers data st))))))"

text \<open>The invariant of the role management: some stored user is an administrator.\<close>

definition has_admin :: "users_store \<Rightarrow> bool" where
  "has_admin st =
     (case users_file st of None \<Rightarrow> False
      | Some data \<Rightarrow> list_ex (\<lambda>u. role u = js ''admin'') data)"

text \<open>A platform for the examples: fixed identifiers and dates, and a stand-in digest.\<close>

definition example_platform :: platform where
  "example_platform =
     \<lparr>randomUUID = (\<lambda>k. if k = 0 then js ''00000000-0000-4000-8000-000000000001''
                         else js ''00000000-0000-4000-8000-000000000002''),
      now_iso = (\<lambda>k. if k = 0 then js ''2024-01-01T00:00:00.000Z''
                      else js ''2024-01-01T00:00:00.001Z''),
      sha256_hex = (\<lambda>pw. js ''digest:'' @ pw)\<rparr>"

definition fresh_store :: users_store where
  "fresh_store = \<lparr>data_dir = False, users_file = None\<rparr>"

definition root_only_store :: users_store where
  "root_only_store =
     \<lparr>data_dir = True,
      users_file = Some
        [\<lparr>user_id = js ''u1'', username = js ''root'', firstName = Some (js ''''),
          lastName = Some (js ''''), password = js ''digest:secret1'', role = js ''admin'',
          mustChangePassword = Some False, createdAt = js ''2024-01-01T00:00:00.000Z'',
          projects = []\<rparr>]\<rparr>"

text \<open>
  A project configuration as \<^verbatim>\<open>projects.loadProjectConfig\<close> returns it; of its fields
  only \<open>services\<close> is read here (field \<open>cfg_services\<close>), and it may be absent.
\<close>

record projectConfig =
  cfg_services :: "service list option"

section \<open>Paths (Node's \<^verbatim>\<open>path\<close> module on POSIX)\<close>

text \<open>
  \<^verbatim>\<open>path.join\<close> and \<^verbatim>\<open>path.normalize\<close> belong to the platform. They are written
  down as Node defines them for POSIX paths: the non-empty arguments are joined with
  \<^verbatim>\<open>/\<close>, then the result is normalised segment by segment: empty segments and
  \<^verbatim>\<open>.\<close> are dropped, \<^verbatim>\<open>..\<close> removes the segment before it (at the root of an absolute
  path it is dropped, in front of a relative path it is kept), and a trailing separator
  is preserved.
\<close>

definition normalize_step :: "bool \<Rightarrow> string list \<Rightarrow> string \<Rightarrow> string list" where
  "normalize_step allowAboveRoot res seg =
     (if seg = [] \<or> seg = ''.'' then res
      else if seg = ''..'' then
        (if res \<noteq> [] \<and> last res \<noteq> ''..'' then butlast res
         else if allowAboveRoot then res @ [''..'']
         else res)
      else res @ [seg])"

definition normalizeString :: "string \<Rightarrow> bool \<Rightarrow> string" where
  "normalizeString path allowAboveRoot =
     join (foldl (normalize_step allowAboveRoot) [] (split_on CHR ''/'' path)) ''/''"

definition path_normalize :: "string \<Rightarrow> string" where
  "path_normalize path =
     (if length path = 0 then ''.''
      else
        (let isAbsolute = (hd path = CHR ''/'');
             trailingSeparator = (last path = CHR ''/'');
             path = normalizeString path (\<not> isAbsolute)
         in if length path = 0 then
              (if isAbsolute then ''/'' else if trailingSeparator then ''./'' else ''.'')
            else
              (let path = (if trailingSeparator then path @ ''/'' else path)
               in if isAbsolute then ''/'' @ path else path)))"

definition path_join :: "string list \<Rightarrow> string" where
  "path_join args =
     (let parts = filter (\<lambda>arg. length arg > 0) args in
      if parts = [] then ''.'' else path_normalize (join parts ''/''))"

section \<open>File manager (modules/fileManager.js)\<close>

text \<open>
  The file system is the list of the absolute paths that exist, files and directories
  alike. Removing a path removes what lies below it. A path is looked up as it is
  spelled: the operating system also finds a directory that is asked for with a
  separator at its end, which \<^verbatim>\<open>path.join\<close> keeps, and this model does not, so the model
  finds no path that the file system would not find.
\<close>

type_synonym filesystem = "string list"

datatype fm_error = AccessDenied | NotFound | AlreadyExists

definition existsSync :: "filesystem \<Rightarrow> string \<Rightarrow> bool" where
  "existsSync fs p = (p \<in> set fs)"

text \<open>What it means for a path to lie inside the directory \<open>root\<close>.\<close>

definition inside_root :: "string \<Rightarrow> string \<Rightarrow> bool" where
  "inside_root root p = (p = root \<or> prefix (root @ ''/'') p)"

text \<open>\<open>listFiles\<close> up to the call of \<^verbatim>\<open>readdir\<close>: the directory whose entries are read.\<close>

definition listFiles :: "filesystem \<Rightarrow> string \<Rightarrow> string \<Rightarrow> fm_error + string" where
  "listFiles fs projectPath relativePath =
     (let fullPath = path_join [projectPath, relativePath] in
      if \<not> prefix projectPath fullPath then Inl AccessDenied
      else if \<not> existsSync fs fullPath then Inl NotFound
      else Inr fullPath)"

definition deleteItem ::
  "filesystem \<Rightarrow> string \<Rightarrow> string \<Rightarrow> (fm_error + unit) \<times> filesystem" where
  "deleteItem fs projectPath relativePath =
     (let fullPath = path_join [projectPath, relativePath] in
      if \<not> prefix projectPath fullPath then (Inl AccessDenied, fs)
      else if \<not> existsSync fs fullPath then (Inl NotFound, fs)
      else (Inr (), filter (\<lambda>p. \<not> (p = fullPath \<or> prefix (fullPath @ ''/'') p)) fs))"

definition shop_files :: filesystem where
  "shop_files =
     [''/var/www/shop'', ''/var/www/shop/sites'', ''/var/www/shop/sites/index.html'',
      ''/var/www/shop/sites-backup'', ''/var/www/shop/sites-backup/db.sql'']"

section \<open>Deleting files through the API (web/server.js)\<close>

text \<open>\<^verbatim>\<open>replace(/\/+/g, '/')\<close>: every run of slashes becomes one slash.\<close>

fun collapse_slashes :: "string \<Rightarrow> string" where
  "collapse_slashes (a # b # cs) =
     (if a = CHR ''/'' \<and> b = CHR ''/'' then collapse_slashes (b # cs)
      else a # collapse_slashes (b # cs))"
| "collapse_slashes cs = cs"

text \<open>
  What the route \<^verbatim>\<open>DELETE /projects/:name/files\<close> does, as the list of the shell calls
  it makes, in order, and the HTTP status it answers with. The collaborators that are
  not among the sources are parameters: whether \<^verbatim>\<open>projects.getProject\<close> finds the
  project, what \<^verbatim>\<open>projects.loadProjectConfig\<close> returns (\<open>None\<close> when it throws), and
  which shell calls throw. \<open>delete_target\<close> is the route's \<open>fullTargetPath\<close>, and
  \<open>rm_rf\<close> its call \<^verbatim>\<open>rm -rf "${fullTargetPath}"\<close>.
\<close>

datatype shell_call = Pm2Command string | ExecCommand string

definition stop_service_in_path ::
  "(shell_call \<Rightarrow> bool) \<Rightarrow> string \<Rightarrow> string \<Rightarrow> shell_call list \<Rightarrow> service \<Rightarrow> shell_call list" where
  "stop_service_in_path throws projectName fullTargetPath calls service =
     (if directory service \<noteq> [] \<and> prefix fullTargetPath (directory service) then
        (let pm2Name =
           (case pm2Name service of
              Some n \<Rightarrow> if n \<noteq> [] then n else projectName @ ''-'' @ name service
            | None \<Rightarrow> projectName @ ''-'' @ name service);
             calls = calls @ [Pm2Command (''stop '' @ pm2Name)]
         in if throws (Pm2Command (''stop '' @ pm2Name)) then calls
            else calls @ [Pm2Command (''delete '' @ pm2Name)])
      else calls)"

text \<open>The template \<^verbatim>\<open>`/var/www/${req.params.name}/sites`\<close> of the file routes.\<close>

definition sites_path :: "string \<Rightarrow> string" where
  "sites_path projectName = ''/var/www/'' @ projectName @ ''/sites''"

definition delete_target :: "string \<Rightarrow> string \<Rightarrow> string" where
  "delete_target projectName relativePath =
     collapse_slashes (sites_path projectName @ ''/'' @ relativePath)"

definition rm_rf :: "string \<Rightarrow> shell_call" where
  "rm_rf fullTargetPath = ExecCommand (''rm -rf '' @ [CHR 0x22] @ fullTargetPath @ [CHR 0x22])"

definition delete_project_files ::
  "bool \<Rightarrow> projectConfig option \<Rightarrow> (shell_call \<Rightarrow> bool) \<Rightarrow> string \<Rightarrow> string \<Rightarrow>
     nat \<times> shell_call list" where
  "delete_project_files projectFound projectConfig throws projectName relativePath =
     (if \<not> projectFound then (404, [])
      else if relativePath = [] then (400, [])
      else
        (let projectPath = sites_path projectName;
             fullTargetPath = collapse_slashes (projectPath @ ''/'' @ relativePath)
         in if \<not> prefix (projectPath @ ''/'') fullTargetPath \<or> fullTargetPath = projectPath
            then (400, [])
            else
              (let calls =
                 (case projectConfig of
                    None \<Rightarrow> []
                  | Some config \<Rightarrow>
                      foldl (stop_service_in_path throws projectName fullTargetPath) []
                        (case cfg_services config of None \<Rightarrow> [] | Some s \<Rightarrow> s));
                   rm = rm_rf fullTargetPath
               in if throws rm then (500, calls @ [rm]) else (200, calls @ [rm]))))"

text \<open>The services the route iterates over: \<^verbatim>\<open>projectConfig.services || []\<close>.\<close>

definition config_services :: "projectConfig option \<Rightarrow> service list" where
  "config_services projectConfig =
     (case projectConfig of
        None \<Rightarrow> []
      | Some config \<Rightarrow> (case cfg_services config of None \<Rightarrow> [] | Some s \<Rightarrow> s))"

text \<open>The handle of a service in this route: \<^verbatim>\<open>service.pm2Name || `${name}-${service.name}`\<close>.\<close>

definition handle_of :: "string \<Rightarrow> service \<Rightarrow> string" where
  "handle_of projectName service =
     (case pm2Name service of
        Some n \<Rightarrow> if n \<noteq> [] then n else projectName @ ''-'' @ name service
      | None \<Rightarrow> projectName @ ''-'' @ name service)"

text \<open>The handles for which the route asks the supervisor to stop a process.\<close>

definition stopped_handles :: "shell_call list \<Rightarrow> string list" where
  "stopped_handles calls =
     concat (map (\<lambda>c. case c of
        Pm2Command cmd \<Rightarrow> if prefix ''stop '' cmd then [drop 5 cmd] else []
      | ExecCommand cmd \<Rightarrow> []) calls)"

text \<open>The handles for which it then asks the supervisor to delete the process.\<close>

definition deleted_handles :: "shell_call list \<Rightarrow> string list" where
  "deleted_handles calls =
     concat (map (\<lambda>c. case c of
        Pm2Command cmd \<Rightarrow> if prefix ''delete '' cmd then [drop 7 cmd] else []
      | ExecCommand cmd \<Rightarrow> []) calls)"

definition api_service :: service where
  "api_service =
     \<lparr>name = ''api'', directory = ''/var/www/shop/sites/api'', command = ''serve'',
      description = '''', setupCommands = [], pm2Name = None\<rparr>"

section \<open>Writing the scripts to disk (modules/scripts.js)\<close>

text \<open>
  Modelled from the spec: the constants of \<^verbatim>\<open>config/constants.js\<close>, which is not among
  the sources. The projects live under \<^verbatim>\<open>/var/www\<close>, the scripts of a project in its
  directory \<^verbatim>\<open>scripts\<close>, and the files are "named exactly \<^verbatim>\<open>start.sh\<close>, \<^verbatim>\<open>stop.sh\<close>,
  \<^verbatim>\<open>restart.sh\<close>, \<^verbatim>\<open>status.sh\<close>, \<^verbatim>\<open>deploy.sh\<close>".
\<close>

definition BASE_PATH :: string where "BASE_PATH = ''/var/www''"
definition PROJECT_STRUCTURE_scripts :: string where "PROJECT_STRUCTURE_scripts = ''scripts''"
definition SCRIPTS_start :: string where "SCRIPTS_start = ''start.sh''"
definition SCRIPTS_stop :: string where "SCRIPTS_stop = ''stop.sh''"

text \<open>
  The world the module acts on. The files are a map from paths to content and mode;
  \<open>project_configs\<close> is what \<^verbatim>\<open>projects.loadProjectConfig\<close> returns for a name (it throws
  where the map is undefined) and \<open>stored_projects\<close> what \<^verbatim>\<open>projects.loadProjects\<close>
  returns (it throws where this is \<open>None\<close>). \<open>dirs\<close> holds the directories that exist,
  of which the module only asks for the scripts directory of a project. The sets
  \<open>chmod_fails\<close> and \<open>mkdir_fails\<close> are the paths on which the file system refuses the
  operation: there the call throws, the mode of the file is not changed, the directory
  is not created. \<open>write_fails\<close> says for a path how writing to it fails, if it does:
  at the open (permissions, a directory in the way), which leaves the file as it was,
  or after the open has created or truncated the file and some bytes of the text have
  been written (a full disk, an input/output error), which leaves the file with these
  bytes, possibly none. \<open>logs\<close> is what the logger has received.
\<close>

record script_file =
  content :: string
  mode :: string

record project =
  project_name :: string

datatype log_entry = Debug string | Success string | LogError string

datatype gen_error =
  ConfigNotFound string | MkdirFailed string | WriteFailed string | ChmodFailed string
  | LoadProjectsFailed

datatype write_failure = AtOpen | AfterBytes nat

record world =
  files :: "string \<rightharpoonup> script_file"
  dirs :: "string set"
  project_configs :: "string \<rightharpoonup> projectConfig"
  stored_projects :: "project list option"
  write_fails :: "string \<rightharpoonup> write_failure"
  chmod_fails :: "string set"
  mkdir_fails :: "string set"
  error_message :: "gen_error \<Rightarrow> string"
  logs :: "log_entry list"

type_synonym action = "world \<Rightarrow> (gen_error + unit) \<times> world"

text \<open>Statements in sequence: the first one that throws ends the run.\<close>

fun run_all :: "action list \<Rightarrow> action" where
  "run_all [] w = (Inr (), w)"
| "run_all (a # as) w =
     (case a w of (Inl e, w') \<Rightarrow> (Inl e, w') | (Inr u, w') \<Rightarrow> run_all as w')"

definition loadProjectConfig :: "world \<Rightarrow> string \<Rightarrow> gen_error + projectConfig" where
  "loadProjectConfig w projectName =
     (case project_configs w projectName of
        None \<Rightarrow> Inl (ConfigNotFound projectName)
      | Some config \<Rightarrow> Inr config)"

definition fs_existsSync :: "world \<Rightarrow> string \<Rightarrow> bool" where
  "fs_existsSync w p = (p \<in> dirs w \<or> p \<in> dom (files w))"

definition fs_mkdirSync :: "string \<Rightarrow> action" where
  "fs_mkdirSync p w =
     (if p \<in> mkdir_fails w then (Inl (MkdirFailed p), w)
      else (Inr (), w\<lparr>dirs := insert p (dirs w)\<rparr>))"

text \<open>
  \<^verbatim>\<open>fs.writeFileSync(path, text)\<close> opens the file with the flag \<^verbatim>\<open>w\<close>, which creates it or
  truncates it, writes the text and closes the file. A file that it creates gets the
  default mode; one that exists keeps its mode. When the call throws after the open,
  the file holds what had been written until then.
\<close>

definition fs_writeFileSync :: "string \<Rightarrow> string \<Rightarrow> action" where
  "fs_writeFileSync p text w =
     (let opened = (\<lambda>written. w\<lparr>files := (files w)(p \<mapsto>
              \<lparr>content = written,
               mode = (case files w p of None \<Rightarrow> ''644'' | Some f \<Rightarrow> mode f)\<rparr>)\<rparr>)
      in case write_fails w p of
           None \<Rightarrow> (Inr (), opened text)
         | Some AtOpen \<Rightarrow> (Inl (WriteFailed p), w)
         | Some (AfterBytes n) \<Rightarrow> (Inl (WriteFailed p), opened (take n text)))"

definition fs_chmodSync :: "string \<Rightarrow> string \<Rightarrow> action" where
  "fs_chmodSync p m w =
     (if p \<in> chmod_fails w then (Inl (ChmodFailed p), w)
      else (case files w p of
              None \<Rightarrow> (Inl (ChmodFailed p), w)
            | Some f \<Rightarrow> (Inr (), w\<lparr>files := (files w)(p \<mapsto> f\<lparr>mode := m\<rparr>)\<rparr>)))"

text \<open>
  Modelled from the spec: the logger (\<^verbatim>\<open>utils/logger.js\<close> is not among the sources).
  Failures are "logged with enough context": a call of the logger records its message
  under its level and returns.
\<close>

definition logger_debug :: "string \<Rightarrow> action" where
  "logger_debug msg w = (Inr (), w\<lparr>logs := logs w @ [Debug msg]\<rparr>)"

definition logger_success :: "string \<Rightarrow> action" where
  "logger_success msg w = (Inr (), w\<lparr>logs := logs w @ [Success msg]\<rparr>)"

definition logger_error :: "string \<Rightarrow> action" where
  "logger_error msg w = (Inr (), w\<lparr>logs := logs w @ [LogError msg]\<rparr>)"

definition generateScripts :: "string \<Rightarrow> action" where
  "generateScripts projectName w =
     (case loadProjectConfig w projectName of
        Inl e \<Rightarrow> (Inl e, w)
      | Inr projectConfig \<Rightarrow>
          (let services = (case cfg_services projectConfig of None \<Rightarrow> [] | Some s \<Rightarrow> s);
               scriptsPath = path_join [BASE_PATH, projectName, PROJECT_STRUCTURE_scripts];
               startScriptPath = path_join [scriptsPath, SCRIPTS_start];
               startContent = generateStartScript projectName services;
               stopScriptPath = path_join [scriptsPath, SCRIPTS_stop];
               stopContent = generateStopScript projectName services;
               restartScriptPath = path_join [scriptsPath, ''restart.sh''];
               restartContent = generateRestartScript projectName services;
               statusScriptPath = path_join [scriptsPath, ''status.sh''];
               statusContent = generateStatusScript projectName services;
               deployScriptPath = path_join [scriptsPath, ''deploy.sh''];
               deployContent = generateDeployScript projectName services
           in run_all
             [(\<lambda>w. if \<not> fs_existsSync w scriptsPath then fs_mkdirSync scriptsPath w
                   else (Inr (), w)),
              fs_writeFileSync startScriptPath startContent,
              fs_chmodSync startScriptPath ''755'',
              logger_debug (''Script cr'' @ e_acute @ e_acute @ '': '' @ startScriptPath),
              fs_writeFileSync stopScriptPath stopContent,
              fs_chmodSync stopScriptPath ''755'',
              logger_debug (''Script cr'' @ e_acute @ e_acute @ '': '' @ stopScriptPath),
              fs_writeFileSync restartScriptPath restartContent,
              fs_chmodSync restartScriptPath ''755'',
              logger_debug (''Script cr'' @ e_acute @ e_acute @ '': '' @ restartScriptPath),
              fs_writeFileSync statusScriptPath statusContent,
              fs_chmodSync statusScriptPath ''755'',
              logger_debug (''Script cr'' @ e_acute @ e_acute @ '': '' @ statusScriptPath),
              fs_writeFileSync deployScriptPath deployContent,
              fs_chmodSync deployScriptPath ''755'',
              logger_debug (''Script cr'' @ e_acute @ e_acute @ '': '' @ deployScriptPath),
              logger_success (''Scripts g'' @ e_acute @ ''n'' @ e_acute @ ''r'' @ e_acute @
                ''s pour '' @ projectName)] w))"

text \<open>One turn of the loop of \<open>regenerateAllScripts\<close>, with its \<^verbatim>\<open>try\<close> and \<^verbatim>\<open>catch\<close>.\<close>

definition regenerate_project :: "world \<Rightarrow> project \<Rightarrow> world" where
  "regenerate_project w project =
     (case generateScripts (project_name project) w of
        (Inr u, w') \<Rightarrow> w'
      | (Inl error, w') \<Rightarrow>
          snd (logger_error (''Erreur pour '' @ project_name project @ '': '' @
                 error_message w' error) w'))"

text \<open>
  \<^verbatim>\<open>projects.loadProjects()\<close> is called before the loop and outside its \<^verbatim>\<open>try\<close>: when it
  throws, \<open>regenerateAllScripts\<close> throws.
\<close>

definition loadProjects :: "world \<Rightarrow> gen_error + project list" where
  "loadProjects w =
     (case stored_projects w of None \<Rightarrow> Inl LoadProjectsFailed | Some ps \<Rightarrow> Inr ps)"

definition regenerateAllScripts :: action where
  "regenerateAllScripts w =
     (case loadProjects w of
        Inl e \<Rightarrow> (Inl e, w)
      | Inr allProjects \<Rightarrow>
          (let w = foldl regenerate_project w allProjects
           in logger_success (''Scripts r'' @ e_acute @ ''g'' @ e_acute @ ''n'' @ e_acute @
                ''r'' @ e_acute @ ''s pour tous les projets'') w))"

text \<open>
  The five script files of a project in the order in which \<open>generateScripts\<close> writes
  them, each with the text generated for it.
\<close>

definition script_files :: "string \<Rightarrow> service list \<Rightarrow> (string \<times> string) list" where
  "script_files projectName services =
     (let scriptsPath = path_join [BASE_PATH, projectName, PROJECT_STRUCTURE_scripts] in
      [(path_join [scriptsPath, SCRIPTS_start], generateStartScript projectName services),
       (path_join [scriptsPath, SCRIPTS_stop], generateStopScript projectName services),
       (path_join [scriptsPath, ''restart.sh''], generateRestartScript projectName services),
       (path_join [scriptsPath, ''status.sh''], generateStatusScript projectName services),
       (path_join [scriptsPath, ''deploy.sh''], generateDeployScript projectName services)])"

text \<open>
  A file holds the newly generated text; a file is as it was before the call; a file
  holds a first part of the newly generated text (nothing, some of it or all of it).
\<close>

definition holds_new :: "world \<Rightarrow> string \<times> string \<Rightarrow> bool" where
  "holds_new w' pc = (map_option content (files w' (fst pc)) = Some (snd pc))"

definition untouched :: "world \<Rightarrow> world \<Rightarrow> string \<times> string \<Rightarrow> bool" where
  "untouched w w' pc = (files w' (fst pc) = files w (fst pc))"

definition cut_short :: "world \<Rightarrow> string \<times> string \<Rightarrow> bool" where
  "cut_short w' pc =
     (case files w' (fst pc) of None \<Rightarrow> False | Some f \<Rightarrow> prefix (content f) (snd pc))"

text \<open>What \<open>generateScripts\<close> does for one file: write, make executable, log.\<close>

definition emit :: "string \<times> string \<Rightarrow> action list" where
  "emit pc =
     [fs_writeFileSync (fst pc) (snd pc), fs_chmodSync (fst pc) ''755'',
      logger_debug (''Script cr'' @ e_acute @ e_acute @ '': '' @ fst pc)]"

definition is_debug :: "log_entry \<Rightarrow> bool" where
  "is_debug e = (case e of Debug m \<Rightarrow> True | Success m \<Rightarrow> False | LogError m \<Rightarrow> False)"

text \<open>The log entry that reports the outcome for one project.\<close>

definition outcome_entry :: "project \<Rightarrow> string option \<Rightarrow> log_entry" where
  "outcome_entry project failure =
     (case failure of
        None \<Rightarrow> Success (''Scripts g'' @ e_acute @ ''n'' @ e_acute @ ''r'' @ e_acute @
                  ''s pour '' @ project_name project)
      | Some msg \<Rightarrow> LogError (''Erreur pour '' @ project_name project @ '': '' @ msg))"

text \<open>A file name: one path segment that is neither empty nor \<^verbatim>\<open>.\<close> nor \<^verbatim>\<open>..\<close>.\<close>

definition plain_name :: "string \<Rightarrow> bool" where
  "plain_name f = (f \<noteq> [] \<and> CHR ''/'' \<notin> set f \<and> f \<noteq> ''.'' \<and> f \<noteq> ''..'')"

text \<open>A statement that leaves the log alone or appends debug entries to it.\<close>

definition quiet :: "action \<Rightarrow> bool" where
  "quiet a = (\<forall>w. \<exists>ds. logs (snd (a w)) = logs w @ ds \<and> list_all is_debug ds)"

text \<open>
  What happens to each project during \<open>regenerateAllScripts\<close>, in order: \<open>None\<close> when its
  scripts were generated, the message of the error otherwise. Each project meets the
  world that the turns before it have left.
\<close>

fun project_outcomes :: "world \<Rightarrow> project list \<Rightarrow> string option list" where
  "project_outcomes w [] = []"
| "project_outcomes w (project # rest) =
     (case generateScripts (project_name project) w of
        (Inr u, w') \<Rightarrow> None
      | (Inl error, w') \<Rightarrow> Some (error_message w' error))
     # project_outcomes (regenerate_project w project) rest"

definition all_done_message :: string where
  "all_done_message = ''Scripts r'' @ e_acute @ ''g'' @ e_acute @ ''n'' @ e_acute @ ''r'' @
     e_acute @ ''s pour tous les projets''"

subsection \<open>An example world\<close>

definition old_script :: script_file where
  "old_script = \<lparr>content = ''# old'', mode = ''644''\<rparr>"

definition shop_world :: world where
  "shop_world =
     \<lparr>files = [''/var/www/shop/scripts/start.sh'' \<mapsto> old_script,
               ''/var/www/shop/scripts/stop.sh'' \<mapsto> old_script,
               ''/var/www/shop/scripts/restart.sh'' \<mapsto> old_script,
               ''/var/www/shop/scripts/status.sh'' \<mapsto> old_script,
               ''/var/www/shop/scripts/deploy.sh'' \<mapsto> old_script],
      dirs = {''/var/www/shop'', ''/var/www/shop/scripts''},
      project_configs = [''shop'' \<mapsto> \<lparr>cfg_services = Some shop_services\<rparr>],
      stored_projects = Some [\<lparr>project_name = ''ghost''\<rparr>, \<lparr>project_name = ''shop''\<rparr>],
      write_fails = Map.empty,
      chmod_fails = {},
      mkdir_fails = {},
      error_message = (\<lambda>e. ''failed''),
      logs = []\<rparr>"

text \<open>The same world on a full disk: \<^verbatim>\<open>restart.sh\<close> is opened and nothing can be written to it.\<close>

definition locked_world :: world where
  "locked_world =
     shop_world\<lparr>write_fails := [''/var/www/shop/scripts/restart.sh'' \<mapsto> AfterBytes 0]\<rparr>"

section \<open>Properties of the generated scripts\<close>

subsection \<open>The loops append one block per service\<close>

lemma foldl_append_step:
  assumes "\<And>acc x. f acc x = acc @ f [] x"
  shows "foldl f acc xs = acc @ concat (map (f []) xs)"
proof (induction xs arbitrary: acc)
  case Nil
  show ?case by simp
next
  case (Cons x xs)
  have "foldl f (f acc x) xs = f acc x @ concat (map (f []) xs)"
    by (rule Cons.IH)
  then show ?case by (simp add: assms[of acc x])
qed

lemma if_append: "(if c then a else b) @ r = (if c then a @ r else b @ r)"
  by simp

lemma append_if: "x @ (if c then a else b) = (if c then x @ a else x @ b)"
  by simp

lemma start_service_step_append:
  "start_service_step p script s = script @ start_service_step p [] s"
  by (simp only: start_service_step_def Let_def append_assoc append_Nil if_append append_if)

lemma stop_service_step_append:
  "stop_service_step p script s = script @ stop_service_step p [] s"
  by (simp only: stop_service_step_def Let_def append_assoc append_Nil)

lemma restart_service_step_append:
  "restart_service_step p script s = script @ restart_service_step p [] s"
  by (simp only: restart_service_step_def Let_def append_assoc append_Nil)

lemma deploy_service_step_append:
  "deploy_service_step p script s = script @ deploy_service_step p [] s"
  by (simp only: deploy_service_step_def Let_def append_assoc append_Nil)

lemma start_loop:
  "foldl (start_service_step p) script xs = script @ concat (map (start_service_step p []) xs)"
  by (rule foldl_append_step) (rule start_service_step_append)

lemma stop_loop:
  "foldl (stop_service_step p) script xs = script @ concat (map (stop_service_step p []) xs)"
  by (rule foldl_append_step) (rule stop_service_step_append)

lemma restart_loop:
  "foldl (restart_service_step p) script xs =
     script @ concat (map (restart_service_step p []) xs)"
  by (rule foldl_append_step) (rule restart_service_step_append)

lemma deploy_loop:
  "foldl (deploy_service_step p) script xs = script @ concat (map (deploy_service_step p []) xs)"
  by (rule foldl_append_step) (rule deploy_service_step_append)

subsection \<open>The blocks read three fields only\<close>

lemma start_block_fields:
  "rendered_fields s = rendered_fields t \<Longrightarrow>
     start_service_step p [] s = start_service_step p [] t"
  by (simp only: rendered_fields_def start_service_step_def Let_def prod.inject)

lemma stop_block_fields:
  "rendered_fields s = rendered_fields t \<Longrightarrow>
     stop_service_step p [] s = stop_service_step p [] t"
  by (simp only: rendered_fields_def stop_service_step_def Let_def prod.inject)

lemma restart_block_fields:
  "rendered_fields s = rendered_fields t \<Longrightarrow>
     restart_service_step p [] s = restart_service_step p [] t"
  by (simp only: rendered_fields_def restart_service_step_def Let_def prod.inject)

lemma deploy_block_fields:
  "rendered_fields s = rendered_fields t \<Longrightarrow>
     deploy_service_step p [] s = deploy_service_step p [] t"
  by (simp only: rendered_fields_def deploy_service_step_def Let_def prod.inject)

lemma map_rendered_fields:
  assumes "\<And>s t. rendered_fields s = rendered_fields t \<Longrightarrow> f s = f t"
    and "map rendered_fields xs = map rendered_fields ys"
  shows "map f xs = map f ys"
  using assms(2)
proof (induction xs arbitrary: ys)
  case Nil
  then show ?case by simp
next
  case (Cons x xs)
  then obtain y ys' where ys: "ys = y # ys'"
    by (cases ys) auto
  with Cons.prems have "rendered_fields x = rendered_fields y"
    and "map rendered_fields xs = map rendered_fields ys'"
    by auto
  then show ?case
    using Cons.IH[of ys'] assms(1)[of x y] ys by simp
qed

lemma handles_fields:
  assumes "map rendered_fields xs = map rendered_fields ys"
  shows "handles p xs = handles p ys"
  unfolding handles_def
  by (rule map_rendered_fields[OF _ assms]) (simp add: rendered_fields_def)

lemma same_fields_same_length:
  "map rendered_fields xs = map rendered_fields ys \<Longrightarrow> length xs = length ys"
  by (metis length_map)

lemma generateStartScript_fields:
  assumes "map rendered_fields xs = map rendered_fields ys"
  shows "generateStartScript p xs = generateStartScript p ys"
proof -
  have "map (start_service_step p []) xs = map (start_service_step p []) ys"
    by (rule map_rendered_fields[OF start_block_fields assms])
  with same_fields_same_length[OF assms] show ?thesis
    by (simp only: generateStartScript_def Let_def start_loop)
qed

lemma generateStopScript_fields:
  assumes "map rendered_fields xs = map rendered_fields ys"
  shows "generateStopScript p xs = generateStopScript p ys"
proof -
  have "map (stop_service_step p []) xs = map (stop_service_step p []) ys"
    by (rule map_rendered_fields[OF stop_block_fields assms])
  with same_fields_same_length[OF assms] show ?thesis
    by (simp only: generateStopScript_def Let_def stop_loop)
qed

lemma generateRestartScript_fields:
  assumes "map rendered_fields xs = map rendered_fields ys"
  shows "generateRestartScript p xs = generateRestartScript p ys"
proof -
  have "map (restart_service_step p []) xs = map (restart_service_step p []) ys"
    by (rule map_rendered_fields[OF restart_block_fields assms])
  with same_fields_same_length[OF assms] show ?thesis
    by (simp only: generateRestartScript_def Let_def restart_loop)
qed

lemma generateDeployScript_fields:
  assumes "map rendered_fields xs = map rendered_fields ys"
  shows "generateDeployScript p xs = generateDeployScript p ys"
proof -
  have "map (deploy_service_step p []) xs = map (deploy_service_step p []) ys"
    by (rule map_rendered_fields[OF deploy_block_fields assms])
  with same_fields_same_length[OF assms] show ?thesis
    by (simp only: generateDeployScript_def Let_def deploy_loop)
qed

lemma generateStatusScript_fields:
  assumes "map rendered_fields xs = map rendered_fields ys"
  shows "generateStatusScript p xs = generateStatusScript p ys"
  using same_fields_same_length[OF assms] handles_fields[OF assms, of p]
  by (simp only: generateStatusScript_def Let_def)

subsection \<open>The blocks of the services\<close>

lemma start_block_step: "start_service_step p [] s = start_block p (rendered_fields s)"
  by (simp only: start_service_step_def start_block_def rendered_fields_def prod.case Let_def
      append_assoc append_Nil if_append append_if)

lemma stop_block_step: "stop_service_step p [] s = stop_block p (rendered_fields s)"
  by (simp only: stop_service_step_def stop_block_def rendered_fields_def prod.case Let_def
      append_assoc append_Nil)

lemma restart_block_step: "restart_service_step p [] s = restart_block p (rendered_fields s)"
  by (simp only: restart_service_step_def restart_block_def rendered_fields_def prod.case
      Let_def append_assoc append_Nil)

lemma deploy_block_step: "deploy_service_step p [] s = deploy_block (rendered_fields s)"
  by (simp only: deploy_service_step_def deploy_block_def rendered_fields_def prod.case Let_def
      append_assoc append_Nil)

lemma start_block_fun:
  "start_service_step p [] = (\<lambda>s. start_block p (rendered_fields s))"
  by (rule ext) (rule start_block_step)

lemma stop_block_fun:
  "stop_service_step p [] = (\<lambda>s. stop_block p (rendered_fields s))"
  by (rule ext) (rule stop_block_step)

lemma restart_block_fun:
  "restart_service_step p [] = (\<lambda>s. restart_block p (rendered_fields s))"
  by (rule ext) (rule restart_block_step)

lemma deploy_block_fun:
  "deploy_service_step p [] = (\<lambda>s. deploy_block (rendered_fields s))"
  by (rule ext) (rule deploy_block_step)

lemma generateStartScript_text:
  \<open>generateStartScript p services =
     start_header p @
     (if services = [] then no_service_message @ ''exit 0\<newline>''
      else concat (map (\<lambda>s. start_block p (rendered_fields s)) services) @ start_footer)\<close>
proof (cases "services = []")
  case True
  then show ?thesis
    by (simp only: generateStartScript_def Let_def list.size if_True no_service_message_def
        append_assoc simp_thms)
next
  case False
  then have l: "(length services = 0) = False" "(services = []) = False"
    by simp_all
  show ?thesis
    by (simp only: generateStartScript_def Let_def l if_False start_loop start_footer_def
        start_block_fun append_assoc)
qed

lemma generateStopScript_text:
  \<open>generateStopScript p services =
     stop_header p @
     (if services = [] then no_service_message @ ''exit 0\<newline>''
      else concat (map (\<lambda>s. stop_block p (rendered_fields s)) services) @ stop_footer)\<close>
proof (cases "services = []")
  case True
  then show ?thesis
    by (simp only: generateStopScript_def Let_def list.size if_True no_service_message_def
        append_assoc simp_thms)
next
  case False
  then have l: "(length services = 0) = False" "(services = []) = False"
    by simp_all
  show ?thesis
    by (simp only: generateStopScript_def Let_def l if_False stop_loop stop_footer_def
        stop_block_fun append_assoc)
qed

lemma generateRestartScript_text:
  \<open>generateRestartScript p services =
     restart_header p @
     (if services = [] then no_service_message @ ''exit 0\<newline>''
      else concat (map (\<lambda>s. restart_block p (rendered_fields s)) services) @ restart_footer)\<close>
proof (cases "services = []")
  case True
  then show ?thesis
    by (simp only: generateRestartScript_def Let_def list.size if_True no_service_message_def
        append_assoc simp_thms)
next
  case False
  then have l: "(length services = 0) = False" "(services = []) = False"
    by simp_all
  show ?thesis
    by (simp only: generateRestartScript_def Let_def l if_False restart_loop restart_footer_def
        restart_block_fun append_assoc)
qed

lemma generateDeployScript_text:
  \<open>generateDeployScript p services =
     deploy_header p @
     (if services = [] then no_service_message
      else deploy_intro @ concat (map (\<lambda>s. deploy_block (rendered_fields s)) services) @
           deploy_footer)\<close>
proof (cases "services = []")
  case True
  then show ?thesis
    by (simp only: generateDeployScript_def Let_def list.size if_True no_service_message_def
        append_assoc simp_thms)
next
  case False
  then have l: "(length services = 0) = False" "(services = []) = False"
    by simp_all
  show ?thesis
    by (simp only: generateDeployScript_def Let_def l if_False deploy_loop deploy_intro_def
        deploy_footer_def deploy_block_fun append_assoc)
qed

lemma generateStatusScript_text:
  \<open>generateStatusScript p services =
     status_header p @
     (if services = [] then no_service_message
      else ''# Afficher le statut de tous les services du projet\<newline>'' @
           ''pm2 list | grep -E "('' @
           join (map (\<lambda>s. p @ ''-'' @ fst (rendered_fields s)) services) ''|'' @
           ''|Name|'' @ box_horizontal @ '')" || echo "Aucun service actif"\<newline>'')\<close>
proof (cases "services = []")
  case True
  then show ?thesis
    by (simp only: generateStatusScript_def Let_def list.size if_True no_service_message_def
        append_assoc simp_thms)
next
  case False
  then have l: "(length services = 0) = False" "(services = []) = False"
    by simp_all
  show ?thesis
    by (simp only: generateStatusScript_def Let_def l if_False handles_def rendered_fields_def
        fst_conv append_assoc)
qed

subsection \<open>Determinism\<close>

text \<open>
  C1. The five generators are functions of the project name and of the stored sequence
  of services, and of nothing else: the source reads no clock, no random source and no
  file, so the model has no further argument. Each text is written out here in closed
  form. It is the header of the script, in which only the project name is filled in,
  followed for a project without services by the fixed message, and otherwise by one
  block per service, in the order of the stored list and with nothing between the
  blocks, and by a fixed footer; \<^verbatim>\<open>status.sh\<close> has the handles of the services, in the
  order of the stored list, in its one filter line. A block is a fixed text in which
  the project name and the \<open>name\<close>, \<open>directory\<close> and \<open>command\<close> of that one service are
  filled in. So two calls with the same project name and with service lists that agree
  on these three fields, position by position, give the same five texts, character for
  character; in particular two calls with the same list do.
\<close>

theorem generate_deterministic:
  \<open>generateStartScript p services =
     start_header p @
     (if services = [] then no_service_message @ ''exit 0\<newline>''
      else concat (map (\<lambda>s. start_block p (rendered_fields s)) services) @ start_footer)
   \<and> generateStopScript p services =
     stop_header p @
     (if services = [] then no_service_message @ ''exit 0\<newline>''
      else concat (map (\<lambda>s. stop_block p (rendered_fields s)) services) @ stop_footer)
   \<and> generateRestartScript p services =
     restart_header p @
     (if services = [] then no_service_message @ ''exit 0\<newline>''
      else concat (map (\<lambda>s. restart_block p (rendered_fields s)) services) @ restart_footer)
   \<and> generateStatusScript p services =
     status_header p @
     (if services = [] then no_service_message
      else ''# Afficher le statut de tous les services du projet\<newline>'' @
           ''pm2 list | grep -E "('' @
           join (map (\<lambda>s. p @ ''-'' @ fst (rendered_fields s)) services) ''|'' @
           ''|Name|'' @ box_horizontal @ '')" || echo "Aucun service actif"\<newline>'')
   \<and> generateDeployScript p services =
     deploy_header p @
     (if services = [] then no_service_message
      else deploy_intro @ concat (map (\<lambda>s. deploy_block (rendered_fields s)) services) @
           deploy_footer)
   \<and> (p' = p \<and> map rendered_fields services' = map rendered_fields services \<longrightarrow>
        generateStartScript p' services' = generateStartScript p services
      \<and> generateStopScript p' services' = generateStopScript p services
      \<and> generateRestartScript p' services' = generateRestartScript p services
      \<and> generateStatusScript p' services' = generateStatusScript p services
      \<and> generateDeployScript p' services' = generateDeployScript p services)\<close>
proof -
  have same: "generateStartScript p' services' = generateStartScript p services
      \<and> generateStopScript p' services' = generateStopScript p services
      \<and> generateRestartScript p' services' = generateRestartScript p services
      \<and> generateStatusScript p' services' = generateStatusScript p services
      \<and> generateDeployScript p' services' = generateDeployScript p services"
    if "p' = p \<and> map rendered_fields services' = map rendered_fields services"
  proof -
    from that have n: "p' = p" and f: "map rendered_fields services' = map rendered_fields services"
      by simp_all
    show ?thesis
      unfolding n
      using generateStartScript_fields[OF f] generateStopScript_fields[OF f]
        generateRestartScript_fields[OF f] generateStatusScript_fields[OF f]
        generateDeployScript_fields[OF f]
      by (simp only: simp_thms)
  qed
  show ?thesis
    using generateStartScript_text[of p services] generateStopScript_text[of p services]
      generateRestartScript_text[of p services] generateStatusScript_text[of p services]
      generateDeployScript_text[of p services] same
    by blast
qed

theorem generate_deterministic_witness:
  "generateStartScript ''shop''
      [\<lparr>name = ''api'', directory = ''api'', command = ''serve'', description = ''REST'',
        setupCommands = [''npm install''], pm2Name = None\<rparr>]
    = generateStartScript ''shop''
      [\<lparr>name = ''api'', directory = ''api'', command = ''serve'', description = '''',
        setupCommands = [], pm2Name = None\<rparr>]
   \<and> generateStopScript ''shop'' shop_services =
       stop_header ''shop'' @
       stop_block ''shop'' (''api'', ''api'', ''serve'') @
       stop_block ''shop'' (''web'', ''web'', ''serve-web'') @ stop_footer"
proof -
  have f: "''shop'' = ''shop'' \<and>
      map rendered_fields
        [\<lparr>name = ''api'', directory = ''api'', command = ''serve'', description = ''REST'',
          setupCommands = [''npm install''], pm2Name = None\<rparr>] =
      map rendered_fields
        [\<lparr>name = ''api'', directory = ''api'', command = ''serve'', description = '''',
          setupCommands = [], pm2Name = None\<rparr>]"
    by (simp add: rendered_fields_def)
  have s: "map (\<lambda>s. stop_block ''shop'' (rendered_fields s)) shop_services =
      [stop_block ''shop'' (''api'', ''api'', ''serve''),
       stop_block ''shop'' (''web'', ''web'', ''serve-web'')]"
    and ne: "(shop_services = []) = False"
    by (simp_all add: shop_services_def rendered_fields_def)
  have stop: "generateStopScript ''shop'' shop_services =
       stop_header ''shop'' @
       stop_block ''shop'' (''api'', ''api'', ''serve'') @
       stop_block ''shop'' (''web'', ''web'', ''serve-web'') @ stop_footer"
    using generate_deterministic[of "''shop''" shop_services]
    by (simp only: s ne if_False concat.simps append_assoc append_Nil)
  from generate_deterministic[of "''shop''"
      "[\<lparr>name = ''api'', directory = ''api'', command = ''serve'', description = '''',
        setupCommands = [], pm2Name = None\<rparr>]" "''shop''"
      "[\<lparr>name = ''api'', directory = ''api'', command = ''serve'', description = ''REST'',
        setupCommands = [''npm install''], pm2Name = None\<rparr>]"] f stop
  show ?thesis
    by blast
qed

subsection \<open>Structure of \<^verbatim>\<open>start.sh\<close> and \<^verbatim>\<open>status.sh\<close>\<close>

lemma js_includes_append_right: "js_includes b n \<Longrightarrow> js_includes (a @ b) n"
  by (induction a) simp_all

lemma js_includes_prefix: "js_includes (n @ b) n"
proof (cases "n @ b")
  case Nil
  then show ?thesis by simp
next
  case (Cons c cs)
  then have "prefix n (c # cs)"
    by (metis prefixI)
  then show ?thesis
    by (simp add: Cons)
qed

lemma js_includes_middle: "js_includes (a @ n @ b) n"
  by (rule js_includes_append_right) (rule js_includes_prefix)

lemma join_snoc2: "xs \<noteq> [] \<Longrightarrow> join (xs @ [a, b]) sep = join xs sep @ sep @ a @ sep @ b"
  by (induction xs sep rule: join.induct) auto

lemma generateStatusScript_nonempty:
  \<open>services \<noteq> [] \<Longrightarrow> generateStatusScript p services =
     status_header p @ ''# Afficher le statut de tous les services du projet\<newline>'' @
     ''pm2 list | grep -E "'' @ ere_alternation (handles p services @ [''Name'', box_horizontal]) @
     ''" || echo "Aucun service actif"\<newline>''\<close>
proof -
  assume ne: "services \<noteq> []"
  then have h: "handles p services \<noteq> []"
    by (simp add: handles_def)
  from ne have l: "(length services = 0) = False"
    by simp
  show ?thesis
    by (simp only: generateStatusScript_def Let_def l if_False ere_alternation_def
        join_snoc2[OF h] append_assoc) simp
qed

lemma generateStartScript_nonempty:
  assumes "services \<noteq> []"
  shows "generateStartScript p services =
     start_header p @ concat (map (start_service_step p []) services) @ start_footer"
proof -
  from assms have l: "(length services = 0) = False"
    by simp
  show ?thesis
    by (simp only: generateStartScript_def Let_def l if_False start_loop start_footer_def
        append_assoc)
qed

lemma start_block_invocation:
  \<open>start_service_step p [] s =
     (if command s \<noteq> [] \<and> (js_includes (command s) ''build'' \<or> js_includes (command s) ''tsc'')
      then ''# Service: '' @ name s @ ''\<newline>'' @
           ''echo "D'' @ e_acute @ ''marrage de '' @ name s @ ''..."\<newline>'' @
           ''cd "'' @ directory s @ ''"\<newline>'' @
           ''echo "'' @ warning_sign @ '' ATTENTION: La commande '' @ single_quote @ command s @ single_quote @ '' semble '' @ e_circ @ ''tre un build"\<newline>'' @
           ''echo "'' @ warning_sign @ '' PM2 va red'' @ e_acute @ ''marrer en boucle car le build se termine"\<newline>'' @
           ''echo "'' @ warning_sign @ '' Utilisez \'npm start\' ou \'npx vite preview\' pour un serveur"\<newline>'' @
           ''echo ""\<newline>''
      else ''# Service: '' @ name s @ ''\<newline>'' @
           ''echo "D'' @ e_acute @ ''marrage de '' @ name s @ ''..."\<newline>'' @
           ''cd "'' @ directory s @ ''"\<newline>'') @
     start_invocation p s @
     ''echo "  '' @ check_mark @ '' '' @ name s @ '' d'' @ e_acute @ ''marr'' @ e_acute @ ''"\<newline>'' @
     ''echo ""\<newline>'' @ ''\<newline>''\<close>
  by (simp only: start_service_step_def start_invocation_def Let_def append_assoc append_Nil
      if_append append_if)

lemma start_block_handle:
  "\<exists>a r. start_service_step p [] s = a @ (p @ ''-'' @ name s) @ r"
proof -
  obtain pre post where "start_service_step p [] s = pre @ start_invocation p s @ post"
    using start_block_invocation[of p s] by blast
  then have \<open>start_service_step p [] s =
      (pre @ ''pm2 start "'' @ command s @ ''" --name "'') @ (p @ ''-'' @ name s) @
      (''" --cwd "'' @ directory s @ ''" 2>/dev/null || pm2 restart "'' @
       p @ ''-'' @ name s @ ''"\<newline>'' @ post)\<close>
    by (simp only: start_invocation_def append_assoc)
  then show ?thesis by blast
qed

lemma shop_start_prefix:
  \<open>\<not> js_includes ((start_header ''shop'' @ ''# Service: api\<newline>'' @ ''echo "D'' @ e_acute @ ''marrage de api..."\<newline>'' @
      ''cd "api"\<newline>'' @ ''pm2 start "serve" --name "'') @ ''shop-api'') ''shop-web''\<close>
  by (simp add: start_header_def e_acute_def)

lemma shop_api_block:
  \<open>\<exists>r. start_service_step ''shop'' [] (hd shop_services) =
     (''# Service: api\<newline>'' @ ''echo "D'' @ e_acute @ ''marrage de api..."\<newline>'' @
      ''cd "api"\<newline>'' @ ''pm2 start "serve" --name "'') @ ''shop-api'' @ r\<close>
  by (simp add: start_service_step_def shop_services_def)

lemma shop_start_order:
  "\<exists>pre post. generateStartScript ''shop'' shop_services = pre @ ''shop-api'' @ post
      \<and> \<not> js_includes (pre @ ''shop-api'') ''shop-web'' \<and> js_includes post ''shop-web''"
proof -
  obtain r where api: \<open>start_service_step ''shop'' [] (hd shop_services) =
     (''# Service: api\<newline>'' @ ''echo "D'' @ e_acute @ ''marrage de api..."\<newline>'' @
      ''cd "api"\<newline>'' @ ''pm2 start "serve" --name "'') @ ''shop-api'' @ r\<close>
    using shop_api_block by blast
  obtain a r' where web: "start_service_step ''shop'' [] (shop_services ! 1) = a @ ''shop-web'' @ r'"
    using start_block_handle[of "''shop''" "shop_services ! 1"] by (auto simp: shop_services_def)
  have l: "shop_services = [hd shop_services, shop_services ! 1]"
    by (simp add: shop_services_def)
  have ne: "shop_services \<noteq> []"
    by (simp add: shop_services_def)
  have "generateStartScript ''shop'' shop_services =
      start_header ''shop'' @ concat (map (start_service_step ''shop'' []) [hd shop_services, shop_services ! 1]) @ start_footer"
    using generateStartScript_nonempty[OF ne, of "''shop''"] l by simp
  then have eq: \<open>generateStartScript ''shop'' shop_services =
      (start_header ''shop'' @ ''# Service: api\<newline>'' @ ''echo "D'' @ e_acute @ ''marrage de api..."\<newline>'' @
      ''cd "api"\<newline>'' @ ''pm2 start "serve" --name "'') @ ''shop-api'' @ (r @ a @ ''shop-web'' @ r' @ start_footer)\<close>
    by (simp only: list.map concat.simps api web append_assoc append_Nil2)
  have "js_includes (r @ a @ ''shop-web'' @ r' @ start_footer) ''shop-web''"
    using js_includes_middle[of "r @ a" "''shop-web''" "r' @ start_footer"] by (simp only: append_assoc)
  with eq shop_start_prefix show ?thesis by blast
qed

text \<open>
  C2 (as amended). For the project \<open>shop\<close> with the services \<open>api\<close> and \<open>web\<close>,
  \<^verbatim>\<open>start.sh\<close> mentions the handle \<open>shop-api\<close> at a place before which \<open>shop-web\<close>
  does not occur, and mentions \<open>shop-web\<close> after it. \<^verbatim>\<open>status.sh\<close> pipes the process
  list through \<^verbatim>\<open>grep -E "(shop-api|shop-web|Name|\<dots>)"\<close>, the last alternative being
  the box-drawing character of the table borders. The filter selects exactly the lines
  in which one of these four strings occurs somewhere: every row of either handle is
  selected, and so is every line that contains \<open>Name\<close> or a border character.
\<close>

theorem shop_scripts:
  \<open>(\<exists>pre post. generateStartScript ''shop'' shop_services = pre @ ''shop-api'' @ post
      \<and> \<not> js_includes (pre @ ''shop-api'') ''shop-web'' \<and> js_includes post ''shop-web'')
   \<and> generateStatusScript ''shop'' shop_services =
       status_header ''shop'' @ ''# Afficher le statut de tous les services du projet\<newline>'' @
       ''pm2 list | grep -E "'' @
       ere_alternation [''shop-api'', ''shop-web'', ''Name'', box_horizontal] @
       ''" || echo "Aucun service actif"\<newline>''
   \<and> ere_alternation [''shop-api'', ''shop-web'', ''Name'', box_horizontal] =
       ''(shop-api|shop-web|Name|'' @ box_horizontal @ '')''
   \<and> grep_E_alternation [''shop-api'', ''shop-web'', ''Name'', box_horizontal] line =
       (js_includes line ''shop-api'' \<or> js_includes line ''shop-web'' \<or>
        js_includes line ''Name'' \<or> js_includes line box_horizontal)
   \<and> grep_E_alternation [''shop-api'', ''shop-web'', ''Name'', box_horizontal]
        (pm2_row ident ''shop-api'' pad rest)
   \<and> grep_E_alternation [''shop-api'', ''shop-web'', ''Name'', box_horizontal]
        (pm2_row ident ''shop-web'' pad rest)\<close>
proof -
  have ne: "shop_services \<noteq> []"
    by (simp add: shop_services_def)
  have h: "handles ''shop'' shop_services @ [''Name'', box_horizontal] =
      [''shop-api'', ''shop-web'', ''Name'', box_horizontal]"
    by (simp add: handles_def shop_services_def)
  have status: \<open>generateStatusScript ''shop'' shop_services =
       status_header ''shop'' @ ''# Afficher le statut de tous les services du projet\<newline>'' @
       ''pm2 list | grep -E "'' @
       ere_alternation [''shop-api'', ''shop-web'', ''Name'', box_horizontal] @
       ''" || echo "Aucun service actif"\<newline>''\<close>
    using generateStatusScript_nonempty[OF ne, of "''shop''"] by (simp only: h)
  have expr: "ere_alternation [''shop-api'', ''shop-web'', ''Name'', box_horizontal] =
       ''(shop-api|shop-web|Name|'' @ box_horizontal @ '')''"
    by (simp add: ere_alternation_def)
  have sel: "grep_E_alternation [''shop-api'', ''shop-web'', ''Name'', box_horizontal] line =
       (js_includes line ''shop-api'' \<or> js_includes line ''shop-web'' \<or>
        js_includes line ''Name'' \<or> js_includes line box_horizontal)"
    by (simp add: grep_E_alternation_def)
  have api: "js_includes (pm2_row ident ''shop-api'' pad rest) ''shop-api''"
    unfolding pm2_row_def
    using js_includes_middle[of "vertical_bar @ '' '' @ ident @ '' '' @ vertical_bar @ '' ''"
        "''shop-api''" "replicate pad CHR '' '' @ '' '' @ vertical_bar @ rest"]
    by (simp only: append_assoc)
  have web: "js_includes (pm2_row ident ''shop-web'' pad rest) ''shop-web''"
    unfolding pm2_row_def
    using js_includes_middle[of "vertical_bar @ '' '' @ ident @ '' '' @ vertical_bar @ '' ''"
        "''shop-web''" "replicate pad CHR '' '' @ '' '' @ vertical_bar @ rest"]
    by (simp only: append_assoc)
  from api web have rows:
    "grep_E_alternation [''shop-api'', ''shop-web'', ''Name'', box_horizontal]
        (pm2_row ident ''shop-api'' pad rest)"
    "grep_E_alternation [''shop-api'', ''shop-web'', ''Name'', box_horizontal]
        (pm2_row ident ''shop-web'' pad rest)"
    by (simp_all add: grep_E_alternation_def)
  from shop_start_order status expr sel rows show ?thesis
    by (intro conjI)
qed

text \<open>
  C2, as first stated, also says that no row of another handle is selected. The row
  of the process \<open>workshop-api\<close> (service \<open>api\<close> of a project \<open>workshop\<close>) is selected
  by the filter of \<open>shop\<close>, and \<open>workshop-api\<close> is not a handle of \<open>shop\<close>.
\<close>

theorem shop_status_filter_counterexample:
  "grep_E_alternation (handles ''shop'' shop_services @ [''Name'', box_horizontal])
      (pm2_row ''7'' ''workshop-api'' 3 '' default '')
   \<and> ''workshop-api'' \<notin> set (handles ''shop'' shop_services)"
  by (simp add: grep_E_alternation_def handles_def shop_services_def pm2_row_def
      vertical_bar_def box_horizontal_def)

subsection \<open>Counting the lines of a script\<close>

lemma split_on_not_Nil: "split_on sep xs \<noteq> []"
  by (induction xs) (auto split: list.splits)

lemma advance_Some: "advance m c = Some h \<longleftrightarrow> m = Some (c # h)"
  by (cases "(m, c)" rule: advance.cases) auto

lemma count_from_lines:
  "count_from x m t =
     (if m = Some (hd (script_lines t)) then 1 else 0) + count_list (tl (script_lines t)) x"
proof (induction t arbitrary: m)
  case Nil
  show ?case by (simp add: script_lines_def)
next
  case (Cons c cs)
  obtain l ls where s: "script_lines cs = l # ls"
    using split_on_not_Nil[of "CHR ''\<newline>''" cs]
    by (cases "script_lines cs") (auto simp: script_lines_def)
  show ?case
  proof (cases "c = CHR ''\<newline>''")
    case True
    then show ?thesis
      using Cons.IH[of "Some x"] s by (auto simp: script_lines_def)
  next
    case False
    then show ?thesis
      using Cons.IH[of "advance m c"] s advance_Some[of m c l]
      by (auto simp: script_lines_def)
  qed
qed

lemma count_list_script_lines:
  "count_list (script_lines t) x = count_from x (Some x) t"
proof -
  obtain l ls where s: "script_lines t = l # ls"
    using split_on_not_Nil[of "CHR ''\<newline>''" t]
    by (cases "script_lines t") (auto simp: script_lines_def)
  show ?thesis
    unfolding count_from_lines[of x "Some x" t] s by auto
qed

lemma count_from_None_single_line:
  "single_line p \<Longrightarrow> count_from x None (p @ rest) = count_from x None rest"
  by (induction p) (auto simp: single_line_def)

lemma count_from_weak_cong: "m = m' \<Longrightarrow> count_from x m t = count_from x m' t"
  by simp

lemma count_from_append_Cons:
  "count_from x m ((c # cs) @ R) =
     (if c = CHR ''\<newline>'' then (if m = Some [] then 1 else 0) + count_from x (Some x) (cs @ R)
      else count_from x (advance m c) (cs @ R))"
  by simp

lemma count_from_append_Nil: "count_from x m ([] @ R) = count_from x m R"
  by simp

lemma count_from_newline_append:
  "x \<noteq> [] \<Longrightarrow>
     count_from x m (a @ CHR ''\<newline>'' # b) =
       count_from x m (a @ [CHR ''\<newline>'']) + count_from x (Some x) b"
  by (induction a arbitrary: m) auto

lemma count_from_append:
  assumes "x \<noteq> []" and "ends_with_newline a"
  shows "count_from x (Some x) (a @ b) = count_from x (Some x) a + count_from x (Some x) b"
proof -
  from assms(2) obtain a' where a: "a = a' @ [CHR ''\<newline>'']"
    unfolding ends_with_newline_def by blast
  show ?thesis
    using count_from_newline_append[OF assms(1), of "Some x" a' b] by (simp add: a)
qed

lemma ends_with_newline_append: "ends_with_newline b \<Longrightarrow> ends_with_newline (a @ b)"
  unfolding ends_with_newline_def by (metis append_assoc)

lemma ends_with_newline_single: "ends_with_newline [CHR ''\<newline>'']"
  unfolding ends_with_newline_def by simp

lemma count_from_concat:
  assumes "x \<noteq> []"
    and "\<And>t. t \<in> set ts \<Longrightarrow> ends_with_newline t \<and> count_from x (Some x) t = 0"
  shows "count_from x (Some x) (concat ts @ b) = count_from x (Some x) b"
  using assms(2)
proof (induction ts)
  case Nil
  show ?case by simp
next
  case (Cons t ts)
  have "count_from x (Some x) (t @ concat ts @ b) =
      count_from x (Some x) t + count_from x (Some x) (concat ts @ b)"
    using count_from_append[OF assms(1), of t "concat ts @ b"] Cons.prems[of t] by simp
  then show ?case
    using Cons by simp
qed

lemma start_header_ends: "ends_with_newline (start_header p)"
  unfolding start_header_def by (intro ends_with_newline_append ends_with_newline_single)

lemma start_block_ends: "ends_with_newline (start_service_step p [] s)"
  unfolding start_block_invocation
  by (intro ends_with_newline_append ends_with_newline_single)

lemma start_header_no_save:
  "single_line p \<Longrightarrow> count_from ''pm2 save'' (Some ''pm2 save'') (start_header p) = 0"
  unfolding start_header_def
  by (simp add: e_acute_def single_line_def count_from_append_Cons count_from_append_Nil
      count_from_None_single_line cong: count_from_weak_cong)

lemma start_footer_one_save:
  "count_from ''pm2 save'' (Some ''pm2 save'') start_footer = 1"
  unfolding start_footer_def
  by (simp add: e_acute_def single_quote_def single_line_def count_from_append_Cons
      count_from_append_Nil count_from_None_single_line cong: count_from_weak_cong)

lemma start_block_no_save:
  assumes "single_line p" and "single_line (name s)" and "single_line (directory s)"
    and "single_line (command s)"
  shows "count_from ''pm2 save'' (Some ''pm2 save'') (start_service_step p [] s) = 0"
proof (cases "command s \<noteq> [] \<and>
    (js_includes (command s) ''build'' \<or> js_includes (command s) ''tsc'')")
  case True
  show ?thesis
    unfolding start_block_invocation start_invocation_def eqTrueI[OF True] if_True append_assoc
    using assms
    by (simp add: e_acute_def e_circ_def warning_sign_def check_mark_def single_quote_def
        single_line_def count_from_append_Cons count_from_append_Nil
        count_from_None_single_line cong: count_from_weak_cong)
next
  case False
  then have c: "(command s \<noteq> [] \<and>
    (js_includes (command s) ''build'' \<or> js_includes (command s) ''tsc'')) = False"
    by simp
  show ?thesis
    unfolding start_block_invocation start_invocation_def c if_False append_assoc
    using assms
    by (simp add: e_acute_def e_circ_def warning_sign_def check_mark_def single_quote_def
        single_line_def count_from_append_Cons count_from_append_Nil
        count_from_None_single_line cong: count_from_weak_cong)
qed

lemma start_script_one_save:
  assumes "services \<noteq> []" and "single_line p"
    and "\<And>s. s \<in> set services \<Longrightarrow>
      single_line (name s) \<and> single_line (directory s) \<and> single_line (command s)"
  shows "count_list (script_lines (generateStartScript p services)) ''pm2 save'' = 1"
proof -
  have x: "''pm2 save'' \<noteq> []"
    by simp
  have blocks: "ends_with_newline t \<and> count_from ''pm2 save'' (Some ''pm2 save'') t = 0"
    if "t \<in> set (map (start_service_step p []) services)" for t
  proof -
    from that obtain s where "s \<in> set services" and t: "t = start_service_step p [] s"
      by auto
    then show ?thesis
      using start_block_ends[of p s] start_block_no_save[OF assms(2), of s] assms(3)[of s]
      by simp
  qed
  have "count_from ''pm2 save'' (Some ''pm2 save'') (generateStartScript p services) =
      count_from ''pm2 save'' (Some ''pm2 save'') (start_header p) +
      count_from ''pm2 save'' (Some ''pm2 save'')
        (concat (map (start_service_step p []) services) @ start_footer)"
    unfolding generateStartScript_nonempty[OF assms(1)]
    by (rule count_from_append[OF x start_header_ends])
  also have "\<dots> = 0 + count_from ''pm2 save'' (Some ''pm2 save'') start_footer"
    unfolding start_header_no_save[OF assms(2)]
    using count_from_concat[OF x blocks, of "map (start_service_step p []) services" start_footer]
    by simp
  finally show ?thesis
    by (simp add: count_list_script_lines start_footer_one_save)
qed

text \<open>
  C3 (as amended). For every non-empty service list, \<^verbatim>\<open>start.sh\<close> is its header, then
  one block per service in stored order, then the footer. The block of a service holds
  the supervisor invocation for the handle \<open>projectName-name\<close>: \<^verbatim>\<open>pm2 start\<close> under that
  handle, followed by \<^verbatim>\<open>|| pm2 restart\<close> of the same handle. The footer, which comes after
  all the blocks, begins with the one \<^verbatim>\<open>pm2 save\<close> that the generator writes; it holds
  exactly one line \<^verbatim>\<open>pm2 save\<close>, and when the project name and the fields of the
  services are free of line breaks this is the only such line of the whole script.
  The count is one of lines of the text: the fields are copied into the script as they
  are, and nothing is said here on what the shell makes of them.
\<close>

theorem start_script_structure:
  assumes "services \<noteq> []"
  shows "generateStartScript p services =
      start_header p @ concat (map (start_service_step p []) services) @ start_footer
    \<and> (\<forall>s \<in> set services. \<exists>pre post.
          start_service_step p [] s = pre @ start_invocation p s @ post)
    \<and> (\<exists>closing. start_footer =
          ''# Sauvegarder la configuration PM2\<newline>'' @ ''pm2 save\<newline>'' @ closing)
    \<and> count_list (script_lines start_footer) ''pm2 save'' = 1
    \<and> (single_line p \<and> (\<forall>s \<in> set services.
          single_line (name s) \<and> single_line (directory s) \<and> single_line (command s))
        \<longrightarrow> count_list (script_lines (generateStartScript p services)) ''pm2 save'' = 1)"
proof -
  have inv: "\<forall>s \<in> set services. \<exists>pre post.
      start_service_step p [] s = pre @ start_invocation p s @ post"
    using start_block_invocation[of p] by blast
  have foot: "\<exists>closing. start_footer =
      ''# Sauvegarder la configuration PM2\<newline>'' @ ''pm2 save\<newline>'' @ closing"
    unfolding start_footer_def by blast
  have one: "count_list (script_lines start_footer) ''pm2 save'' = 1"
    by (simp only: count_list_script_lines start_footer_one_save)
  from generateStartScript_nonempty[OF assms, of p] inv foot one
    start_script_one_save[OF assms, of p]
  show ?thesis
    by blast
qed

theorem start_script_structure_witness:
  "generateStartScript ''shop'' shop_services =
      start_header ''shop'' @ concat (map (start_service_step ''shop'' []) shop_services) @
      start_footer
   \<and> count_list (script_lines (generateStartScript ''shop'' shop_services)) ''pm2 save'' = 1"
proof -
  have ne: "shop_services \<noteq> []"
    by (simp add: shop_services_def)
  have sl: "single_line ''shop'' \<and> (\<forall>s \<in> set shop_services.
      single_line (name s) \<and> single_line (directory s) \<and> single_line (command s))"
    by (simp add: shop_services_def single_line_def)
  from start_script_structure[OF ne, of "''shop''"] sl show ?thesis
    by blast
qed

lemma multiline_block_one_save:
  "count_from ''pm2 save'' (Some ''pm2 save'')
     (start_service_step ''shop'' [] multiline_service) = 1"
  by (simp add: start_service_step_def multiline_service_def e_acute_def check_mark_def)

text \<open>
  C3, as first stated, has exactly one \<^verbatim>\<open>pm2 save\<close> in \<^verbatim>\<open>start.sh\<close> for every non-empty
  service list. The command of a service is copied into the script unescaped: for the
  one service whose command closes the quotation, goes on with a line \<^verbatim>\<open>pm2 save\<close> and
  opens a quotation again, the script has two lines \<^verbatim>\<open>pm2 save\<close>, one of them inside
  the block of the service.
\<close>

theorem start_script_two_saves_counterexample:
  "[multiline_service] \<noteq> []
   \<and> count_list (script_lines (generateStartScript ''shop'' [multiline_service])) ''pm2 save''
       = 2"
proof -
  have x: "''pm2 save'' \<noteq> []"
    by simp
  have ne: "[multiline_service] \<noteq> []"
    by simp
  have sl: "single_line ''shop''"
    by (simp add: single_line_def)
  have "count_from ''pm2 save'' (Some ''pm2 save'')
        (generateStartScript ''shop'' [multiline_service]) =
      count_from ''pm2 save'' (Some ''pm2 save'') (start_header ''shop'') +
      count_from ''pm2 save'' (Some ''pm2 save'')
        (start_service_step ''shop'' [] multiline_service @ start_footer)"
    unfolding generateStartScript_nonempty[OF ne]
    using count_from_append[OF x start_header_ends, of "''shop''"] by simp
  also have "\<dots> = 0 + (1 + 1)"
    unfolding start_header_no_save[OF sl]
      count_from_append[OF x start_block_ends]
      multiline_block_one_save start_footer_one_save ..
  finally show ?thesis
    by (simp add: count_list_script_lines)
qed

subsection \<open>The empty service list\<close>

lemma lines_from_split:
  "lines_from cur t = (cur @ hd (script_lines t)) # tl (script_lines t)"
proof (induction t arbitrary: cur)
  case Nil
  show ?case by (simp add: script_lines_def)
next
  case (Cons c cs)
  obtain l ls where s: "script_lines cs = l # ls"
    using split_on_not_Nil[of "CHR ''\<newline>''" cs]
    by (cases "script_lines cs") (auto simp: script_lines_def)
  show ?case
    using Cons.IH s by (auto simp: script_lines_def)
qed

lemma script_lines_from: "script_lines t = lines_from [] t"
proof -
  obtain l ls where s: "script_lines t = l # ls"
    using split_on_not_Nil[of "CHR ''\<newline>''" t]
    by (cases "script_lines t") (auto simp: script_lines_def)
  show ?thesis
    by (simp add: lines_from_split s)
qed

lemma lines_from_weak_cong: "cur = cur' \<Longrightarrow> lines_from cur t = lines_from cur' t"
  by simp

lemma lines_from_append_Cons:
  "lines_from cur ((c # cs) @ R) =
     (if c = CHR ''\<newline>'' then cur # lines_from [] (cs @ R) else lines_from (cur @ [c]) (cs @ R))"
  by simp

lemma lines_from_append_Nil: "lines_from cur ([] @ R) = lines_from cur R"
  by simp

lemma lines_from_single_line:
  "single_line q \<Longrightarrow> lines_from cur (q @ R) = lines_from (cur @ q) R"
  by (induction q arbitrary: cur) (auto simp: single_line_def)

lemma plain_text_single_line: "plain_text p \<Longrightarrow> single_line p"
  by (induction p) (auto simp: plain_text_def single_line_def)

lemma empty_list_texts:
  "generateStartScript p [] = start_header p @ no_service_message @ ''exit 0\<newline>''"
  "generateStopScript p [] = stop_header p @ no_service_message @ ''exit 0\<newline>''"
  "generateRestartScript p [] = restart_header p @ no_service_message @ ''exit 0\<newline>''"
  "generateDeployScript p [] = deploy_header p @ no_service_message"
  by (simp_all only: generateStartScript_def generateStopScript_def generateRestartScript_def
        generateDeployScript_def Let_def list.size if_True no_service_message_def
        append_assoc simp_thms)

lemma start_empty_run:
  assumes "plain_text p"
  shows \<open>run_script pm2 (generateStartScript p []) =
    (if pm2
     then Exited 0 [rule_line, ''  D'' @ e_acute @ ''marrage des services: '' @ p, rule_line, [],
            no_service_text]
     else Exited 1 [rule_line, ''  D'' @ e_acute @ ''marrage des services: '' @ p, rule_line, [],
            pm2_missing_text, ''Installez-le avec: npm install -g pm2''])\<close>
  unfolding run_script_def script_lines_from empty_list_texts start_header_def
    no_service_message_def append_assoc
  using assms plain_text_single_line[OF assms]
  by (simp add: e_acute_def single_line_def lines_from_append_Cons lines_from_append_Nil
      lines_from_single_line ltrim_def echo_argument_def function_header_def
      identifier_char_def plain_text_def rule_line_def no_service_text_def pm2_missing_text_def
      cong: lines_from_weak_cong)

lemma stop_empty_run:
  assumes "plain_text p"
  shows \<open>run_script pm2 (generateStopScript p []) =
    (if pm2
     then Exited 0 [rule_line, ''  Arr'' @ e_circ @ ''t des services: '' @ p, rule_line, [],
            no_service_text]
     else Exited 1 [rule_line, ''  Arr'' @ e_circ @ ''t des services: '' @ p, rule_line, [],
            pm2_missing_text])\<close>
  unfolding run_script_def script_lines_from empty_list_texts stop_header_def
    no_service_message_def append_assoc
  using assms plain_text_single_line[OF assms]
  by (simp add: e_acute_def e_circ_def single_line_def lines_from_append_Cons
      lines_from_append_Nil lines_from_single_line ltrim_def echo_argument_def
      function_header_def identifier_char_def plain_text_def rule_line_def no_service_text_def
      pm2_missing_text_def cong: lines_from_weak_cong)

lemma restart_empty_run:
  assumes "plain_text p"
  shows \<open>run_script pm2 (generateRestartScript p []) =
    (if pm2
     then Exited 0 [rule_line, ''  Red'' @ e_acute @ ''marrage des services: '' @ p, rule_line,
            [], no_service_text]
     else Exited 1 [rule_line, ''  Red'' @ e_acute @ ''marrage des services: '' @ p, rule_line,
            [], pm2_missing_text])\<close>
  unfolding run_script_def script_lines_from empty_list_texts restart_header_def
    no_service_message_def append_assoc
  using assms plain_text_single_line[OF assms]
  by (simp add: e_acute_def single_line_def lines_from_append_Cons lines_from_append_Nil
      lines_from_single_line ltrim_def echo_argument_def function_header_def
      identifier_char_def plain_text_def rule_line_def no_service_text_def pm2_missing_text_def
      cong: lines_from_weak_cong)

lemma deploy_empty_run:
  assumes "plain_text p"
  shows \<open>run_script pm2 (generateDeployScript p []) =
     Exited 0 [rule_line, ''  D'' @ e_acute @ ''ploiement: '' @ p, rule_line, [],
       no_service_text]\<close>
  unfolding run_script_def script_lines_from empty_list_texts deploy_header_def
    no_service_message_def append_assoc
  using assms plain_text_single_line[OF assms]
  by (simp add: e_acute_def right_arrow_def check_mark_def warning_sign_def single_line_def
      lines_from_append_Cons lines_from_append_Nil lines_from_single_line ltrim_def
      echo_argument_def function_header_def identifier_char_def plain_text_def rule_line_def
      no_service_text_def cong: lines_from_weak_cong)

text \<open>
  C4 (as amended). For every project name and the empty service list, \<^verbatim>\<open>start.sh\<close>,
  \<^verbatim>\<open>stop.sh\<close> and \<^verbatim>\<open>restart.sh\<close> are their header followed by the informational message
  and an explicit \<^verbatim>\<open>exit 0\<close>, and nothing else; \<^verbatim>\<open>deploy.sh\<close> is its header followed by the
  message only. Removing the only service of a project leaves the empty list, hence
  these texts. Run for a project name that is plain text to the shell, on a machine
  where \<^verbatim>\<open>pm2\<close> is installed, each of the first three prints its title and the message
  and ends with status 0; on a machine without \<^verbatim>\<open>pm2\<close> the check in their header prints
  an error and ends the run with status 1 before the message is reached. \<^verbatim>\<open>deploy.sh\<close>
  has no such check: it prints its title and the message and ends with status 0 on
  either machine.
\<close>

theorem empty_service_list_noop:
  \<open>generateStartScript p [] = start_header p @ no_service_message @ ''exit 0\<newline>''
   \<and> generateStopScript p [] = stop_header p @ no_service_message @ ''exit 0\<newline>''
   \<and> generateRestartScript p [] = restart_header p @ no_service_message @ ''exit 0\<newline>''
   \<and> generateDeployScript p [] = deploy_header p @ no_service_message
   \<and> removeService (name s) [s] = []
   \<and> (plain_text p \<longrightarrow>
         run_script True (generateStartScript p []) =
           Exited 0 [rule_line, ''  D'' @ e_acute @ ''marrage des services: '' @ p, rule_line,
             [], no_service_text]
       \<and> run_script True (generateStopScript p []) =
           Exited 0 [rule_line, ''  Arr'' @ e_circ @ ''t des services: '' @ p, rule_line, [],
             no_service_text]
       \<and> run_script True (generateRestartScript p []) =
           Exited 0 [rule_line, ''  Red'' @ e_acute @ ''marrage des services: '' @ p, rule_line,
             [], no_service_text]
       \<and> run_script pm2 (generateDeployScript p []) =
           Exited 0 [rule_line, ''  D'' @ e_acute @ ''ploiement: '' @ p, rule_line, [],
             no_service_text]
       \<and> run_script False (generateStartScript p []) =
           Exited 1 [rule_line, ''  D'' @ e_acute @ ''marrage des services: '' @ p, rule_line,
             [], pm2_missing_text, ''Installez-le avec: npm install -g pm2'']
       \<and> run_script False (generateStopScript p []) =
           Exited 1 [rule_line, ''  Arr'' @ e_circ @ ''t des services: '' @ p, rule_line, [],
             pm2_missing_text]
       \<and> run_script False (generateRestartScript p []) =
           Exited 1 [rule_line, ''  Red'' @ e_acute @ ''marrage des services: '' @ p, rule_line,
             [], pm2_missing_text])\<close>
proof -
  have removed: "removeService (name s) [s] = []"
    by (simp add: removeService_def)
  have runs: \<open>run_script True (generateStartScript p []) =
           Exited 0 [rule_line, ''  D'' @ e_acute @ ''marrage des services: '' @ p, rule_line,
             [], no_service_text]
       \<and> run_script True (generateStopScript p []) =
           Exited 0 [rule_line, ''  Arr'' @ e_circ @ ''t des services: '' @ p, rule_line, [],
             no_service_text]
       \<and> run_script True (generateRestartScript p []) =
           Exited 0 [rule_line, ''  Red'' @ e_acute @ ''marrage des services: '' @ p, rule_line,
             [], no_service_text]
       \<and> run_script pm2 (generateDeployScript p []) =
           Exited 0 [rule_line, ''  D'' @ e_acute @ ''ploiement: '' @ p, rule_line, [],
             no_service_text]
       \<and> run_script False (generateStartScript p []) =
           Exited 1 [rule_line, ''  D'' @ e_acute @ ''marrage des services: '' @ p, rule_line,
             [], pm2_missing_text, ''Installez-le avec: npm install -g pm2'']
       \<and> run_script False (generateStopScript p []) =
           Exited 1 [rule_line, ''  Arr'' @ e_circ @ ''t des services: '' @ p, rule_line, [],
             pm2_missing_text]
       \<and> run_script False (generateRestartScript p []) =
           Exited 1 [rule_line, ''  Red'' @ e_acute @ ''marrage des services: '' @ p, rule_line,
             [], pm2_missing_text]\<close> if plain: "plain_text p"
    using start_empty_run[OF plain, of True] stop_empty_run[OF plain, of True]
      restart_empty_run[OF plain, of True] deploy_empty_run[OF plain, of pm2]
      start_empty_run[OF plain, of False] stop_empty_run[OF plain, of False]
      restart_empty_run[OF plain, of False]
    by (simp only: if_True if_False simp_thms)
  from empty_list_texts[of p] removed runs show ?thesis
    by blast
qed

theorem empty_service_list_noop_witness:
  \<open>plain_text ''shop''
   \<and> run_script True (generateStartScript ''shop'' []) =
       Exited 0 [rule_line, ''  D'' @ e_acute @ ''marrage des services: '' @ ''shop'', rule_line,
         [], no_service_text]
   \<and> run_script True (generateDeployScript ''shop'' []) =
       Exited 0 [rule_line, ''  D'' @ e_acute @ ''ploiement: '' @ ''shop'', rule_line, [],
         no_service_text]\<close>
proof -
  have h: "plain_text ''shop''"
    by (simp add: plain_text_def)
  from empty_service_list_noop[of "''shop''" s True] h show ?thesis
    by blast
qed

text \<open>
  C4, as first stated, has every script of a project without services print the
  message and end with status 0. On a machine where \<^verbatim>\<open>pm2\<close> is not installed,
  \<^verbatim>\<open>start.sh\<close> of the project \<open>shop\<close> without services prints its title and the error of
  the check in its header, and ends with status 1; the message is not printed.
\<close>

theorem empty_start_script_without_pm2_counterexample:
  \<open>run_script False (generateStartScript ''shop'' []) =
     Exited 1 [rule_line, ''  D'' @ e_acute @ ''marrage des services: shop'', rule_line, [],
       pm2_missing_text, ''Installez-le avec: npm install -g pm2'']
   \<and> no_service_text \<notin> set [rule_line, ''  D'' @ e_acute @ ''marrage des services: shop'',
       rule_line, [], pm2_missing_text, ''Installez-le avec: npm install -g pm2'']\<close>
proof -
  have h: "plain_text ''shop''"
    by (simp add: plain_text_def)
  have "no_service_text \<notin> set [rule_line, ''  D'' @ e_acute @ ''marrage des services: shop'',
       rule_line, [], pm2_missing_text, ''Installez-le avec: npm install -g pm2'']"
    by (simp add: no_service_text_def rule_line_def pm2_missing_text_def e_acute_def)
  with start_empty_run[OF h, of False] show ?thesis
    by simp
qed

section \<open>Properties of the user module\<close>

lemma initUsersFile_present:
  "\<exists>data. users_file (initUsersFile pf st) = Some data"
  by (cases "users_file st") (auto simp: initUsersFile_def Let_def)

lemma initUsersFile_idle:
  "data_dir st \<Longrightarrow> users_file st \<noteq> None \<Longrightarrow> initUsersFile pf st = st"
  by (simp add: initUsersFile_def)

lemma readUsers_store: "snd (readUsers pf st) = initUsersFile pf st"
  by (simp add: readUsers_def Let_def split: option.splits)

text \<open>
  C7 (as amended). A call of \<open>createUser\<close> whose user name is taken, whose role is
  neither \<open>admin\<close> nor \<open>user\<close>, or whose password has fewer than 6 characters throws, and
  \<open>writeUsers\<close> is not reached: the store after the call is the store after
  \<open>initUsersFile\<close>, which \<open>readUsers\<close> runs first. When the data directory and the users
  file exist, that is the store before the call, unchanged; the one write that can
  precede the error is the creation of a missing users file with the default
  administrator.
\<close>

theorem createUser_rejects_before_write:
  assumes "users_file (initUsersFile pf st) = Some data"
    and "(\<exists>u \<in> set data. username u = uname) \<or> newRole \<notin> {js ''admin'', js ''user''}
         \<or> length pw < 6"
  shows "(\<exists>e \<in> {UserExists, InvalidRole, PasswordTooShort}.
            createUser pf uname pw newRole mustChange firstN lastN st =
              (Inl e, initUsersFile pf st))
    \<and> (data_dir st \<and> users_file st \<noteq> None \<longrightarrow> initUsersFile pf st = st)"
proof -
  have f: "(find (\<lambda>u. username u = uname) data \<noteq> None) = (\<exists>u \<in> set data. username u = uname)"
    by (auto simp: find_None_iff)
  have "\<exists>e \<in> {UserExists, InvalidRole, PasswordTooShort}.
      createUser pf uname pw newRole mustChange firstN lastN st = (Inl e, initUsersFile pf st)"
    using assms f by (auto simp: createUser_def readUsers_def Let_def)
  then show ?thesis
    using initUsersFile_idle[of st pf] by blast
qed

theorem createUser_rejects_before_write_witness:
  "\<exists>e. createUser example_platform (js ''root'') (js ''longenough'') (js ''user'') False [] []
      root_only_store = (Inl e, root_only_store)"
proof -
  have h1: "users_file (initUsersFile example_platform root_only_store) =
      Some (the (users_file root_only_store))"
    by (simp add: initUsersFile_def root_only_store_def)
  have h2: "(\<exists>u \<in> set (the (users_file root_only_store)). username u = js ''root'')
      \<or> js ''user'' \<notin> {js ''admin'', js ''user''} \<or> length (js ''longenough'') < 6"
    by (simp add: root_only_store_def)
  have h3: "data_dir root_only_store \<and> users_file root_only_store \<noteq> None"
    by (simp add: root_only_store_def)
  from createUser_rejects_before_write[OF h1 h2, of False "[]" "[]"] h3 show ?thesis
    by auto
qed

text \<open>
  C7, as first stated, has no side effect at all before the error. On a store
  without users file, a call with a password that is too short throws and leaves the
  file created.
\<close>

theorem createUser_side_effect_counterexample:
  "fst (createUser example_platform (js ''bob'') (js ''abc'') (js ''user'') False [] []
          fresh_store) = Inl PasswordTooShort
   \<and> users_file fresh_store = None
   \<and> users_file (snd (createUser example_platform (js ''bob'') (js ''abc'') (js ''user'')
          False [] [] fresh_store)) \<noteq> None"
  by (simp add: createUser_def readUsers_def initUsersFile_def fresh_store_def js_def Let_def)

subsection \<open>The last administrator\<close>

lemma findIndex_Some:
  "findIndex P xs = Some i \<Longrightarrow> i < length xs \<and> P (xs ! i)"
proof (induction xs arbitrary: i)
  case Nil
  then show ?case by simp
next
  case (Cons x xs)
  then show ?case
    by (cases "P x") (auto split: if_splits)
qed

lemma admin_count_update:
  assumes "i < length xs" and "role (xs ! i) = a" and "r \<noteq> a"
  shows "length (filter (\<lambda>u. role u = a) (xs[i := (xs ! i)\<lparr>role := r\<rparr>])) + 1 =
      length (filter (\<lambda>u. role u = a) xs)"
  using assms
proof (induction xs arbitrary: i)
  case Nil
  then show ?case by simp
next
  case (Cons x xs)
  then show ?case
    by (cases i) auto
qed

lemma list_ex_update_other:
  assumes "list_ex P xs" and "\<not> P (xs ! i)"
  shows "list_ex P (xs[i := v])"
proof -
  from assms(1) obtain j where j: "j < length xs" "P (xs ! j)"
    by (auto simp: list_ex_iff in_set_conv_nth)
  with assms(2) have "j \<noteq> i"
    by auto
  then have e: "(xs[i := v]) ! j = xs ! j"
    by simp
  have "(xs[i := v]) ! j \<in> set (xs[i := v])"
    using j(1) by (intro nth_mem) simp
  with j(2) e show ?thesis
    unfolding list_ex_iff by auto
qed

text \<open>
  \<open>changeUserRole\<close> keeps the invariant: it refuses to demote the only administrator,
  whatever the user is called.
\<close>

lemma changeUserRole_keeps_admin:
  assumes "has_admin st"
  shows "has_admin (snd (changeUserRole pf userId newRole st))"
proof (cases "newRole \<in> set [js ''admin'', js ''user'']")
  case False
  then show ?thesis
    using assms by (simp add: changeUserRole_def)
next
  case valid: True
  from assms obtain data where data: "users_file st = Some data"
    and adm: "list_ex (\<lambda>u. role u = js ''admin'') data"
    by (auto simp: has_admin_def split: option.splits)
  have rd: "readUsers pf st = (Inr data, initUsersFile pf st)"
    and keep: "users_file (initUsersFile pf st) = Some data"
    using data by (auto simp: readUsers_def initUsersFile_def Let_def)
  show ?thesis
  proof (cases "findIndex (\<lambda>u. user_id u = userId) data")
    case None
    then show ?thesis
      using valid rd keep adm by (simp add: changeUserRole_def has_admin_def)
  next
    case (Some i)
    then have i: "i < length data"
      using findIndex_Some by fastforce
    let ?n = "length (filter (\<lambda>u. role u = js ''admin'') data)"
    have pos: "0 < ?n"
      using adm by (auto simp: list_ex_iff filter_empty_conv)
    show ?thesis
    proof (cases "role (data ! i) = js ''admin'' \<and> newRole = js ''user'' \<and> ?n = 1")
      case True
      then show ?thesis
        using valid rd keep adm Some by (simp add: changeUserRole_def has_admin_def)
    next
      case False
      have "list_ex (\<lambda>u. role u = js ''admin'') (data[i := (data ! i)\<lparr>role := newRole\<rparr>])"
      proof (cases "role (data ! i) = js ''admin'' \<and> newRole = js ''user''")
        case True
        then have ne: "newRole \<noteq> js ''admin''"
          by (simp add: js_def)
        from True False pos have "2 \<le> ?n"
          by linarith
        moreover from True have "role (data ! i) = js ''admin''"
          by simp
        note admin_count_update[OF i this ne]
        ultimately have "0 < length (filter (\<lambda>u. role u = js ''admin'')
            (data[i := (data ! i)\<lparr>role := newRole\<rparr>]))"
          by linarith
        then show ?thesis
          by (auto simp: list_ex_iff filter_empty_conv)
      next
        case nd: False
        show ?thesis
        proof (cases "newRole = js ''admin''")
          case True
          have "(data ! i)\<lparr>role := newRole\<rparr> \<in> set (data[i := (data ! i)\<lparr>role := newRole\<rparr>])"
            using i by (rule set_update_memI)
          with True show ?thesis
            unfolding list_ex_iff by (intro bexI[of _ "(data ! i)\<lparr>role := newRole\<rparr>"]) simp_all
        next
          case notadmin: False
          with valid nd have "role (data ! i) \<noteq> js ''admin''"
            by auto
          with adm show ?thesis
            by (rule list_ex_update_other)
        qed
      qed
      moreover have v: "(newRole \<notin> set [js ''admin'', js ''user'']) = False"
        using valid by blast
      moreover have c: "(role (data ! i) = js ''admin'' \<and> newRole = js ''user'' \<and> ?n = 1) = False"
        using False by blast
      have "changeUserRole pf userId newRole st =
          (Inr (), writeUsers (data[i := (data ! i)\<lparr>role := newRole\<rparr>]) (initUsersFile pf st))"
        unfolding changeUserRole_def v if_False rd prod.case sum.case Some option.case Let_def c
        by (rule refl)
      ultimately show ?thesis
        by (simp add: has_admin_def writeUsers_def)
    qed
  qed
qed

text \<open>
  C9. \<open>deleteUser\<close> counts the administrators only when the user to delete is called
  \<open>admin\<close>. A store whose single administrator is called \<open>root\<close> satisfies the
  invariant; deleting that user succeeds and leaves no administrator.
\<close>

theorem deleteUser_removes_last_admin:
  "has_admin root_only_store
   \<and> deleteUser example_platform (js ''u1'') root_only_store =
       (Inr (), \<lparr>data_dir = True, users_file = Some []\<rparr>)
   \<and> \<not> has_admin (snd (deleteUser example_platform (js ''u1'') root_only_store))"
  by (simp add: has_admin_def deleteUser_def readUsers_def initUsersFile_def writeUsers_def
      root_only_store_def js_def Let_def)

section \<open>Properties of the file routes\<close>

text \<open>
  C10. The guard of the file manager is \<open>fullPath.startsWith(projectPath)\<close>, a prefix
  test on the text of the path. For the project root \<^verbatim>\<open>/var/www/shop/sites\<close> and the
  relative path \<^verbatim>\<open>../sites-backup/db.sql\<close> the joined path is
  \<^verbatim>\<open>/var/www/shop/sites-backup/db.sql\<close>, which begins with the text of the root and lies
  outside of it: \<open>listFiles\<close> goes on to read there and \<open>deleteItem\<close> removes the file.
\<close>

theorem fileManager_escapes_root:
  "path_join [''/var/www/shop/sites'', ''../sites-backup/db.sql''] =
      ''/var/www/shop/sites-backup/db.sql''
   \<and> \<not> inside_root ''/var/www/shop/sites'' ''/var/www/shop/sites-backup/db.sql''
   \<and> listFiles shop_files ''/var/www/shop/sites'' ''../sites-backup'' =
      Inr ''/var/www/shop/sites-backup''
   \<and> deleteItem shop_files ''/var/www/shop/sites'' ''../sites-backup/db.sql'' =
      (Inr (), [''/var/www/shop'', ''/var/www/shop/sites'', ''/var/www/shop/sites/index.html'',
         ''/var/www/shop/sites-backup''])"
proof -
  have j1: "path_join [''/var/www/shop/sites'', ''../sites-backup/db.sql''] =
      ''/var/www/shop/sites-backup/db.sql''"
    by (simp add: path_join_def path_normalize_def normalizeString_def normalize_step_def)
  have j2: "path_join [''/var/www/shop/sites'', ''../sites-backup''] =
      ''/var/www/shop/sites-backup''"
    by (simp add: path_join_def path_normalize_def normalizeString_def normalize_step_def)
  have o: "\<not> inside_root ''/var/www/shop/sites'' ''/var/www/shop/sites-backup/db.sql''"
    by (simp add: inside_root_def)
  have l: "listFiles shop_files ''/var/www/shop/sites'' ''../sites-backup'' =
      Inr ''/var/www/shop/sites-backup''"
    unfolding listFiles_def j2 by (simp add: existsSync_def shop_files_def)
  have d: "deleteItem shop_files ''/var/www/shop/sites'' ''../sites-backup/db.sql'' =
      (Inr (), [''/var/www/shop'', ''/var/www/shop/sites'', ''/var/www/shop/sites/index.html'',
         ''/var/www/shop/sites-backup''])"
    unfolding deleteItem_def j1 by (simp add: existsSync_def shop_files_def)
  from j1 o l d show ?thesis
    by (intro conjI)
qed

subsection \<open>Which processes the bulk delete stops\<close>

lemma stopped_handles_append:
  "stopped_handles (xs @ ys) = stopped_handles xs @ stopped_handles ys"
  by (simp add: stopped_handles_def)

lemma stop_service_in_path_append:
  "stop_service_in_path throws pn target calls s =
     calls @ stop_service_in_path throws pn target [] s"
  by (simp add: stop_service_in_path_def Let_def)

lemma stop_loop_calls:
  "foldl (stop_service_in_path throws pn target) calls services =
     calls @ concat (map (stop_service_in_path throws pn target []) services)"
proof (induction services arbitrary: calls)
  case Nil
  show ?case by simp
next
  case (Cons s services)
  show ?case
    unfolding foldl_Cons Cons.IH[of "stop_service_in_path throws pn target calls s"]
    by (simp add: stop_service_in_path_append[of throws pn target calls s])
qed

lemma stopped_handles_step:
  "stopped_handles (stop_service_in_path throws pn target [] s) =
     (if directory s \<noteq> [] \<and> prefix target (directory s) then [handle_of pn s] else [])"
  by (simp add: stop_service_in_path_def stopped_handles_def handle_of_def Let_def)

lemma stopped_handles_loop:
  "stopped_handles (concat (map (stop_service_in_path throws pn target []) services)) =
     map (handle_of pn)
       (filter (\<lambda>s. directory s \<noteq> [] \<and> prefix target (directory s)) services)"
proof (induction services)
  case Nil
  show ?case by (simp add: stopped_handles_def)
next
  case (Cons s services)
  then show ?case
    by (simp add: stopped_handles_append stopped_handles_step)
qed


lemma deleted_handles_append:
  "deleted_handles (xs @ ys) = deleted_handles xs @ deleted_handles ys"
  by (simp add: deleted_handles_def)

lemma deleted_handles_step:
  "deleted_handles (stop_service_in_path throws pn target [] s) =
     (if directory s \<noteq> [] \<and> prefix target (directory s) \<and>
         \<not> throws (Pm2Command (''stop '' @ handle_of pn s))
      then [handle_of pn s] else [])"
  by (auto simp: stop_service_in_path_def deleted_handles_def handle_of_def Let_def)

lemma deleted_handles_loop:
  "deleted_handles (concat (map (stop_service_in_path throws pn target []) services)) =
     map (handle_of pn)
       (filter (\<lambda>s. directory s \<noteq> [] \<and> prefix target (directory s) \<and>
          \<not> throws (Pm2Command (''stop '' @ handle_of pn s))) services)"
proof (induction services)
  case Nil
  show ?case by (simp add: deleted_handles_def)
next
  case (Cons s services)
  then show ?case
    by (simp add: deleted_handles_append deleted_handles_step)
qed

lemma delete_project_files_result:
  "delete_project_files found cfg throws pn rel =
     (if found \<and> rel \<noteq> [] \<and> prefix (sites_path pn @ ''/'') (delete_target pn rel)
         \<and> delete_target pn rel \<noteq> sites_path pn
      then (if throws (rm_rf (delete_target pn rel)) then 500 else 200,
            concat (map (stop_service_in_path throws pn (delete_target pn rel) [])
              (config_services cfg)) @ [rm_rf (delete_target pn rel)])
      else (if found then 400 else 404, []))"
proof -
  define P where "P = sites_path pn"
  define T where "T = delete_target pn rel"
  have T: "collapse_slashes (P @ ''/'' @ rel) = T"
    by (simp only: T_def delete_target_def P_def)
  show ?thesis
    unfolding delete_project_files_def Let_def P_def[symmetric] T T_def[symmetric]
    by (cases cfg) (auto simp: config_services_def stop_loop_calls)
qed

text \<open>
  C6 (as amended). When the route gets as far as the removal, the handles it asks the
  supervisor to stop are exactly those of the services whose \<open>directory\<close> is not empty
  and begins with the text of the path to delete (the target path is a prefix of the
  directory), in stored order; the processes it then deletes from the supervisor are
  those among them whose stop did not throw. These calls come before the one
  \<^verbatim>\<open>rm -rf\<close>. When the route answers 404 or 400 it makes no call.
\<close>

theorem bulk_delete_stops_services_below_target:
  "stopped_handles (snd (delete_project_files found cfg throws pn rel)) =
     (if found \<and> rel \<noteq> [] \<and> prefix (sites_path pn @ ''/'') (delete_target pn rel)
         \<and> delete_target pn rel \<noteq> sites_path pn
      then map (handle_of pn)
        (filter (\<lambda>s. directory s \<noteq> [] \<and> prefix (delete_target pn rel) (directory s))
          (config_services cfg))
      else [])
   \<and> deleted_handles (snd (delete_project_files found cfg throws pn rel)) =
     (if found \<and> rel \<noteq> [] \<and> prefix (sites_path pn @ ''/'') (delete_target pn rel)
         \<and> delete_target pn rel \<noteq> sites_path pn
      then map (handle_of pn)
        (filter (\<lambda>s. directory s \<noteq> [] \<and> prefix (delete_target pn rel) (directory s) \<and>
            \<not> throws (Pm2Command (''stop '' @ handle_of pn s)))
          (config_services cfg))
      else [])
   \<and> (\<exists>pm2calls. snd (delete_project_files found cfg throws pn rel) =
          pm2calls @
          (if fst (delete_project_files found cfg throws pn rel) \<in> {404, 400} then []
           else [rm_rf (delete_target pn rel)])
        \<and> list_all (\<lambda>c. case c of Pm2Command cmd \<Rightarrow> True | ExecCommand cmd \<Rightarrow> False)
            pm2calls)"
proof -
  define valid where "valid \<longleftrightarrow> found \<and> rel \<noteq> [] \<and>
      prefix (sites_path pn @ ''/'') (delete_target pn rel) \<and>
      delete_target pn rel \<noteq> sites_path pn"
  define T where "T = delete_target pn rel"
  define blocks where
    "blocks = concat (map (stop_service_in_path throws pn T []) (config_services cfg))"
  have res: "delete_project_files found cfg throws pn rel =
      (if valid then (if throws (rm_rf T) then 500 else 200, blocks @ [rm_rf T])
       else (if found then 400 else 404, []))"
    unfolding valid_def T_def blocks_def by (rule delete_project_files_result)
  have rm: "stopped_handles [rm_rf x] = []" "deleted_handles [rm_rf x] = []" for x
    by (simp_all add: stopped_handles_def deleted_handles_def rm_rf_def)
  have nil: "stopped_handles [] = []" "deleted_handles [] = []"
    by (simp_all add: stopped_handles_def deleted_handles_def)
  have "list_all (\<lambda>c. case c of Pm2Command cmd \<Rightarrow> True | ExecCommand cmd \<Rightarrow> False)
      (concat (map (stop_service_in_path throws pn T []) services))" for services
    by (induction services) (simp_all add: stop_service_in_path_def Let_def)
  then have pm2:
    "list_all (\<lambda>c. case c of Pm2Command cmd \<Rightarrow> True | ExecCommand cmd \<Rightarrow> False) blocks"
    unfolding blocks_def .
  have s: "stopped_handles (snd (delete_project_files found cfg throws pn rel)) =
     (if valid then map (handle_of pn)
        (filter (\<lambda>s. directory s \<noteq> [] \<and> prefix T (directory s)) (config_services cfg))
      else [])"
    unfolding res blocks_def
    by (simp add: stopped_handles_append stopped_handles_loop rm nil)
  have d: "deleted_handles (snd (delete_project_files found cfg throws pn rel)) =
     (if valid then map (handle_of pn)
        (filter (\<lambda>s. directory s \<noteq> [] \<and> prefix T (directory s) \<and>
            \<not> throws (Pm2Command (''stop '' @ handle_of pn s))) (config_services cfg))
      else [])"
    unfolding res blocks_def
    by (simp add: deleted_handles_append deleted_handles_loop rm nil)
  have o: "\<exists>pm2calls. snd (delete_project_files found cfg throws pn rel) =
          pm2calls @
          (if fst (delete_project_files found cfg throws pn rel) \<in> {404, 400} then []
           else [rm_rf T])
        \<and> list_all (\<lambda>c. case c of Pm2Command cmd \<Rightarrow> True | ExecCommand cmd \<Rightarrow> False)
            pm2calls"
  proof (cases valid)
    case True
    with pm2 show ?thesis
      unfolding res by (intro exI[of _ blocks]) simp
  next
    case False
    then show ?thesis
      unfolding res by (intro exI[of _ "[]"]) simp
  qed
  from s d o show ?thesis
    unfolding valid_def T_def by (intro conjI)
qed

theorem bulk_delete_stops_services_below_target_witness:
  "stopped_handles (snd (delete_project_files True (Some \<lparr>cfg_services = Some [api_service]\<rparr>)
      (\<lambda>c. False) ''shop'' ''api'')) = [''shop-api'']"
proof -
  have t: "delete_target ''shop'' ''api'' = ''/var/www/shop/sites/api''"
    "sites_path ''shop'' = ''/var/www/shop/sites''"
    by (simp_all add: delete_target_def sites_path_def)
  have c: "config_services (Some \<lparr>cfg_services = Some [api_service]\<rparr>) = [api_service]"
    by (simp add: config_services_def)
  from bulk_delete_stops_services_below_target[of True
      "Some \<lparr>cfg_services = Some [api_service]\<rparr>" "\<lambda>c. False" "''shop''" "''api''"]
  show ?thesis
    unfolding t c by (simp add: api_service_def handle_of_def)
qed

text \<open>
  C6, as first stated, has the prefix the other way round. The directory of the
  service \<open>api\<close> is a prefix of the path \<^verbatim>\<open>/var/www/shop/sites/api/node_modules\<close>, and
  deleting that path stops nothing; the directory is not a prefix of
  \<^verbatim>\<open>/var/www/shop/sites/a\<close>, and deleting that path stops the service.
\<close>

theorem bulk_delete_prefix_direction_counterexample:
  \<open>prefix (directory api_service) (delete_target ''shop'' ''api/node_modules'')
   \<and> delete_project_files True (Some \<lparr>cfg_services = Some [api_service]\<rparr>) (\<lambda>c. False)
        ''shop'' ''api/node_modules'' =
       (200, [ExecCommand ''rm -rf "/var/www/shop/sites/api/node_modules"''])
   \<and> \<not> prefix (directory api_service) (delete_target ''shop'' ''a'')
   \<and> delete_project_files True (Some \<lparr>cfg_services = Some [api_service]\<rparr>) (\<lambda>c. False)
        ''shop'' ''a'' =
       (200, [Pm2Command ''stop shop-api'', Pm2Command ''delete shop-api'',
              ExecCommand ''rm -rf "/var/www/shop/sites/a"''])\<close>
  by (simp add: delete_project_files_def delete_target_def sites_path_def rm_rf_def
      api_service_def stop_service_in_path_def Let_def)

section \<open>Properties of script materialisation\<close>

subsection \<open>The paths of the five script files are distinct\<close>

lemma split_on_append_sep: "split_on c (a @ c # b) = split_on c a @ split_on c b"
proof (induction a)
  case Nil
  show ?case by simp
next
  case (Cons x a)
  obtain l ls where s: "split_on c a = l # ls"
    using split_on_not_Nil[of c a] by (cases "split_on c a") auto
  show ?case
    by (simp add: Cons s)
qed

lemma split_on_plain: "c \<notin> set f \<Longrightarrow> split_on c f = [f]"
  by (induction f) auto

lemma join_snoc: "join (xs @ [f]) sep = (if xs = [] then f else join xs sep @ sep @ f)"
  by (induction xs sep rule: join.induct) auto

lemma join_snoc_not_Nil: "f \<noteq> [] \<Longrightarrow> join (xs @ [f]) sep \<noteq> []"
  by (simp add: join_snoc)

lemma path_normalize_not_Nil: "path_normalize p \<noteq> []"
  by (auto simp: path_normalize_def Let_def)

lemma path_join_not_Nil: "path_join args \<noteq> []"
  by (simp add: path_join_def Let_def path_normalize_not_Nil)

lemma path_join_file:
  assumes "d \<noteq> []"
  shows "\<exists>P. \<forall>f. plain_name f \<longrightarrow> path_join [d, f] = P @ f"
proof -
  define X where "X = foldl (normalize_step (hd d \<noteq> CHR ''/'')) [] (split_on CHR ''/'' d)"
  define P where "P = (if hd d = CHR ''/'' then ''/'' else []) @
      (if X = [] then [] else join X ''/'' @ ''/'')"
  have "path_join [d, f] = P @ f" if "plain_name f" for f
  proof -
    from that have f: "f \<noteq> []" "CHR ''/'' \<notin> set f" "f \<noteq> ''.''" "f \<noteq> ''..''"
      by (auto simp: plain_name_def)
    have j: "path_join [d, f] = path_normalize (d @ CHR ''/'' # f)"
      using assms f by (simp add: path_join_def)
    have hd: "hd (d @ CHR ''/'' # f) = hd d"
      using assms by simp
    have lf: "last f \<in> set f"
      using f(1) by (rule last_in_set)
    have "last (d @ CHR ''/'' # f) = last f"
      using f(1) by simp
    with lf f(2) have last: "last (d @ CHR ''/'' # f) \<noteq> CHR ''/''"
      by metis
    have sp: "split_on CHR ''/'' (d @ CHR ''/'' # f) = split_on CHR ''/'' d @ [f]"
      by (simp add: split_on_append_sep split_on_plain f)
    have n: "normalizeString (d @ CHR ''/'' # f) (hd d \<noteq> CHR ''/'') = join (X @ [f]) ''/''"
      unfolding normalizeString_def sp foldl_append X_def[symmetric]
      using f by (simp add: normalize_step_def)
    have ne: "join (X @ [f]) ''/'' \<noteq> []"
      using f(1) by (rule join_snoc_not_Nil)
    show ?thesis
      unfolding j path_normalize_def Let_def hd n
      using ne last by (simp add: P_def join_snoc)
  qed
  then show ?thesis by blast
qed

lemma script_files_distinct: "distinct (map fst (script_files p services))"
proof -
  obtain P where P: "\<And>f. plain_name f \<Longrightarrow>
      path_join [path_join [BASE_PATH, p, PROJECT_STRUCTURE_scripts], f] = P @ f"
    using path_join_file[OF path_join_not_Nil] by blast
  have "plain_name SCRIPTS_start" "plain_name SCRIPTS_stop" "plain_name ''restart.sh''"
    "plain_name ''status.sh''" "plain_name ''deploy.sh''"
    by (simp_all add: plain_name_def SCRIPTS_start_def SCRIPTS_stop_def)
  then show ?thesis
    by (simp add: script_files_def Let_def P SCRIPTS_start_def SCRIPTS_stop_def)
qed

subsection \<open>Running the statements of \<open>generateScripts\<close>\<close>

lemma run_all_append:
  "run_all (as @ bs) w =
     (case run_all as w of (Inl e, w') \<Rightarrow> (Inl e, w') | (Inr u, w') \<Rightarrow> run_all bs w')"
  by (induction as arbitrary: w) (auto split: prod.splits sum.splits)

lemma generateScripts_steps:
  assumes "project_configs w p = Some cfg"
  shows "generateScripts p w =
     run_all ([\<lambda>w. if \<not> fs_existsSync w (path_join [BASE_PATH, p, PROJECT_STRUCTURE_scripts])
                  then fs_mkdirSync (path_join [BASE_PATH, p, PROJECT_STRUCTURE_scripts]) w
                  else (Inr (), w)] @
              concat (map emit (script_files p (config_services (Some cfg)))) @
              [logger_success (''Scripts g'' @ e_acute @ ''n'' @ e_acute @ ''r'' @ e_acute @
                ''s pour '' @ p)]) w"
  using assms
  by (simp add: generateScripts_def loadProjectConfig_def script_files_def emit_def
      config_services_def Let_def)

lemma emit_files:
  assumes "run_all (emit pc) w = (r, w1)"
  shows "(\<forall>q. q \<noteq> fst pc \<longrightarrow> files w1 q = files w q)
    \<and> (r = Inr () \<longrightarrow> holds_new w1 pc)
    \<and> (holds_new w1 pc \<or> files w1 (fst pc) = files w (fst pc) \<or> cut_short w1 pc)"
  using assms
  by (auto simp: emit_def fs_writeFileSync_def fs_chmodSync_def logger_debug_def holds_new_def
      cut_short_def Let_def take_is_prefix split: if_splits option.splits write_failure.splits)

lemma emit_all_prefix:
  assumes "distinct (map fst pcs)" and "run_all (concat (map emit pcs)) w = (r, w')"
  shows "(\<exists>k \<le> length pcs. list_all (holds_new w') (take k pcs)
            \<and> list_all (\<lambda>pc. untouched w w' pc \<or> cut_short w' pc) (take 1 (drop k pcs))
            \<and> list_all (untouched w w') (drop (Suc k) pcs)
            \<and> (r = Inr () \<longrightarrow> k = length pcs))
    \<and> (\<forall>q. q \<notin> fst ` set pcs \<longrightarrow> files w' q = files w q)"
  using assms
proof (induction pcs arbitrary: w)
  case Nil
  then show ?case by simp
next
  case (Cons pc pcs)
  obtain r1 w1 where e: "run_all (emit pc) w = (r1, w1)"
    by (cases "run_all (emit pc) w") auto
  from emit_files[OF e] have other: "\<And>q. q \<noteq> fst pc \<Longrightarrow> files w1 q = files w q"
    and ok: "r1 = Inr () \<Longrightarrow> holds_new w1 pc"
    and either: "holds_new w1 pc \<or> files w1 (fst pc) = files w (fst pc) \<or> cut_short w1 pc"
    by auto
  from Cons.prems(1) have fresh: "fst pc \<notin> fst ` set pcs" and dist: "distinct (map fst pcs)"
    by auto
  have rest_same: "files w1 (fst x) = files w (fst x)" if "x \<in> set pcs" for x
  proof -
    from that fresh have "fst x \<noteq> fst pc"
      by (metis imageI)
    then show ?thesis
      by (rule other)
  qed
  have run: "run_all (concat (map emit (pc # pcs))) w =
      (case r1 of Inl err \<Rightarrow> (Inl err, w1) | Inr u \<Rightarrow> run_all (concat (map emit pcs)) w1)"
    by (simp add: run_all_append e split: sum.splits)
  show ?case
  proof (cases r1)
    case (Inl err)
    with run Cons.prems(2) have r: "r = Inl err" and w': "w' = w1"
      by auto
    have out: "\<forall>q. q \<notin> fst ` set (pc # pcs) \<longrightarrow> files w' q = files w q"
      using other w' by auto
    have rest: "list_all (untouched w w') pcs"
      using rest_same w' by (auto simp: list_all_iff untouched_def)
    show ?thesis
    proof (cases "holds_new w1 pc")
      case True
      have "list_all (untouched w w') (take 1 pcs)" "list_all (untouched w w') (drop 1 pcs)"
        using rest by (auto simp: list_all_iff dest: in_set_takeD in_set_dropD)
      then have "list_all (\<lambda>pc. untouched w w' pc \<or> cut_short w' pc) (take 1 pcs)"
        and "list_all (untouched w w') (drop 1 pcs)"
        by (auto simp: list_all_iff)
      with True w' r have "Suc 0 \<le> length (pc # pcs)
          \<and> list_all (holds_new w') (take (Suc 0) (pc # pcs))
          \<and> list_all (\<lambda>pc. untouched w w' pc \<or> cut_short w' pc)
               (take 1 (drop (Suc 0) (pc # pcs)))
          \<and> list_all (untouched w w') (drop (Suc (Suc 0)) (pc # pcs))
          \<and> (r = Inr () \<longrightarrow> Suc 0 = length (pc # pcs))"
        by simp
      with out show ?thesis
        by blast
    next
      case False
      with either w' have "untouched w w' pc \<or> cut_short w' pc"
        by (auto simp: untouched_def)
      with rest r have "0 \<le> length (pc # pcs)
          \<and> list_all (holds_new w') (take 0 (pc # pcs))
          \<and> list_all (\<lambda>pc. untouched w w' pc \<or> cut_short w' pc) (take 1 (drop 0 (pc # pcs)))
          \<and> list_all (untouched w w') (drop (Suc 0) (pc # pcs))
          \<and> (r = Inr () \<longrightarrow> 0 = length (pc # pcs))"
        by simp
      with out show ?thesis
        by blast
    qed
  next
    case (Inr u)
    with run Cons.prems(2) have "run_all (concat (map emit pcs)) w1 = (r, w')"
      by simp
    from Cons.IH[OF dist this] obtain k where k: "k \<le> length pcs"
      and new: "list_all (holds_new w') (take k pcs)"
      and mid: "list_all (\<lambda>pc. untouched w1 w' pc \<or> cut_short w' pc) (take 1 (drop k pcs))"
      and old: "list_all (untouched w1 w') (drop (Suc k) pcs)"
      and all: "r = Inr () \<longrightarrow> k = length pcs"
      and out1: "\<And>q. q \<notin> fst ` set pcs \<Longrightarrow> files w' q = files w1 q"
      by blast
    from Inr ok have "holds_new w1 pc"
      by simp
    with out1[OF fresh] have first: "holds_new w' pc"
      by (simp add: holds_new_def)
    have prev: "untouched w w' x" if "x \<in> set pcs" "untouched w1 w' x" for x
      using that rest_same[of x] by (simp add: untouched_def)
    have mid': "list_all (\<lambda>pc. untouched w w' pc \<or> cut_short w' pc) (take 1 (drop k pcs))"
      unfolding list_all_iff
    proof
      fix x
      assume x: "x \<in> set (take 1 (drop k pcs))"
      then have "x \<in> set pcs"
        by (meson in_set_takeD in_set_dropD)
      with mid x prev[of x] show "untouched w w' x \<or> cut_short w' x"
        by (auto simp: list_all_iff)
    qed
    have old': "list_all (untouched w w') (drop (Suc k) pcs)"
      unfolding list_all_iff
    proof
      fix x
      assume x: "x \<in> set (drop (Suc k) pcs)"
      then have "x \<in> set pcs"
        by (rule in_set_dropD)
      with old x prev[of x] show "untouched w w' x"
        by (auto simp: list_all_iff)
    qed
    have out: "\<forall>q. q \<notin> fst ` set (pc # pcs) \<longrightarrow> files w' q = files w q"
      using out1 other by auto
    from k first new mid' old' all have "Suc k \<le> length (pc # pcs)
        \<and> list_all (holds_new w') (take (Suc k) (pc # pcs))
        \<and> list_all (\<lambda>pc. untouched w w' pc \<or> cut_short w' pc)
             (take 1 (drop (Suc k) (pc # pcs)))
        \<and> list_all (untouched w w') (drop (Suc (Suc k)) (pc # pcs))
        \<and> (r = Inr () \<longrightarrow> Suc k = length (pc # pcs))"
      by simp
    with out show ?thesis
      by blast
  qed
qed

text \<open>
  C5 (as amended). \<open>generateScripts\<close> writes the five files one after the other, in the
  order start, stop, restart, status, deploy. After any call for a project with a
  configuration, some first \<open>k\<close> of the five files hold the newly generated text; the
  file after them, the one at which the call failed, is either exactly as it was or cut
  short (opened and truncated, with a first part of the new text, possibly nothing, in
  it); the files after that one are exactly as they were. When the call succeeds \<open>k\<close> is
  five. A call that fails for want of a configuration changes nothing.
\<close>

theorem generateScripts_writes_a_prefix:
  assumes "generateScripts p w = (r, w')"
  shows "(project_configs w p = None \<longrightarrow> r = Inl (ConfigNotFound p) \<and> w' = w)
    \<and> (\<forall>cfg. project_configs w p = Some cfg \<longrightarrow>
          (\<exists>k \<le> 5.
              list_all (holds_new w') (take k (script_files p (config_services (Some cfg))))
            \<and> list_all (\<lambda>pc. untouched w w' pc \<or> cut_short w' pc)
                (take 1 (drop k (script_files p (config_services (Some cfg)))))
            \<and> list_all (untouched w w')
                (drop (Suc k) (script_files p (config_services (Some cfg))))
            \<and> (r = Inr () \<longrightarrow> k = 5)))"
proof -
  have none: "r = Inl (ConfigNotFound p) \<and> w' = w" if "project_configs w p = None"
    using that assms by (auto simp: generateScripts_def loadProjectConfig_def)
  have some: "\<exists>k \<le> 5.
      list_all (holds_new w') (take k (script_files p (config_services (Some cfg))))
      \<and> list_all (\<lambda>pc. untouched w w' pc \<or> cut_short w' pc)
          (take 1 (drop k (script_files p (config_services (Some cfg)))))
      \<and> list_all (untouched w w') (drop (Suc k) (script_files p (config_services (Some cfg))))
      \<and> (r = Inr () \<longrightarrow> k = 5)" if cfg: "project_configs w p = Some cfg" for cfg
  proof -
  define sf where "sf = script_files p (config_services (Some cfg))"
  define dir where "dir = path_join [BASE_PATH, p, PROJECT_STRUCTURE_scripts]"
  define ensure :: action where
    "ensure = (\<lambda>w. if \<not> fs_existsSync w dir then fs_mkdirSync dir w else (Inr (), w))"
  define done_msg where "done_msg = ''Scripts g'' @ e_acute @ ''n'' @ e_acute @ ''r'' @
      e_acute @ ''s pour '' @ p"
  have len: "length sf = 5"
    by (simp add: sf_def script_files_def Let_def)
  have dist: "distinct (map fst sf)"
    unfolding sf_def by (rule script_files_distinct)
  have steps: "generateScripts p w =
      run_all ([ensure] @ concat (map emit sf) @ [logger_success done_msg]) w"
    unfolding ensure_def sf_def dir_def done_msg_def by (rule generateScripts_steps[OF cfg])
  obtain r0 w0 where e0: "ensure w = (r0, w0)"
    by (cases "ensure w") auto
  then have f0: "files w0 = files w" and l0: "r0 \<noteq> Inr () \<longrightarrow> w0 = w"
    by (auto simp: ensure_def fs_mkdirSync_def split: if_splits)
  have "\<exists>k \<le> 5. list_all (holds_new w') (take k sf)
      \<and> list_all (\<lambda>pc. untouched w w' pc \<or> cut_short w' pc) (take 1 (drop k sf))
      \<and> list_all (untouched w w') (drop (Suc k) sf)
      \<and> (r = Inr () \<longrightarrow> k = 5)"
  proof (cases r0)
    case (Inl err)
    with steps e0 assms have "r = Inl err" and "files w' = files w"
      using f0 by auto
    then have "list_all (holds_new w') (take 0 sf)
        \<and> list_all (\<lambda>pc. untouched w w' pc \<or> cut_short w' pc) (take 1 (drop 0 sf))
        \<and> list_all (untouched w w') (drop (Suc 0) sf)
        \<and> (r = Inr () \<longrightarrow> (0::nat) = 5)"
      by (simp add: list_all_iff untouched_def)
    then show ?thesis
      by blast
  next
    case (Inr u)
    obtain r1 w1 where e1: "run_all (concat (map emit sf)) w0 = (r1, w1)"
      by (cases "run_all (concat (map emit sf)) w0") auto
    from emit_all_prefix[OF dist e1] obtain k where k: "k \<le> length sf"
      and new: "list_all (holds_new w1) (take k sf)"
      and mid: "list_all (\<lambda>pc. untouched w0 w1 pc \<or> cut_short w1 pc) (take 1 (drop k sf))"
      and old: "list_all (untouched w0 w1) (drop (Suc k) sf)"
      and all: "r1 = Inr () \<longrightarrow> k = length sf"
      by blast
    have res: "(r, w') = (case r1 of Inl err \<Rightarrow> (Inl err, w1)
        | Inr u \<Rightarrow> logger_success done_msg w1)"
      using assms steps e0 Inr e1
      by (auto simp: run_all_append logger_success_def split: sum.splits)
    then have fw: "files w' = files w1" and rr: "r = Inr () \<longrightarrow> r1 = Inr ()"
      by (auto simp: logger_success_def split: sum.splits)
    have "list_all (holds_new w') (take k sf)"
      using new fw by (simp add: list_all_iff holds_new_def)
    moreover have "list_all (\<lambda>pc. untouched w w' pc \<or> cut_short w' pc) (take 1 (drop k sf))"
      using mid fw f0 by (simp add: list_all_iff untouched_def cut_short_def)
    moreover have "list_all (untouched w w') (drop (Suc k) sf)"
      using old fw f0 by (simp add: list_all_iff untouched_def)
    ultimately show ?thesis
      using k all rr len by auto
  qed
  then show ?thesis
    unfolding sf_def .
  qed
  from none some show ?thesis
    by blast
qed
lemma shop_script_files:
  "script_files ''shop'' services =
     [(''/var/www/shop/scripts/start.sh'', generateStartScript ''shop'' services),
      (''/var/www/shop/scripts/stop.sh'', generateStopScript ''shop'' services),
      (''/var/www/shop/scripts/restart.sh'', generateRestartScript ''shop'' services),
      (''/var/www/shop/scripts/status.sh'', generateStatusScript ''shop'' services),
      (''/var/www/shop/scripts/deploy.sh'', generateDeployScript ''shop'' services)]"
proof -
  have d: "path_join [BASE_PATH, ''shop'', PROJECT_STRUCTURE_scripts] = ''/var/www/shop/scripts''"
    by (simp add: path_join_def path_normalize_def normalizeString_def normalize_step_def
        BASE_PATH_def PROJECT_STRUCTURE_scripts_def)
  have f: "path_join [''/var/www/shop/scripts'', SCRIPTS_start] = ''/var/www/shop/scripts/start.sh''"
    "path_join [''/var/www/shop/scripts'', SCRIPTS_stop] = ''/var/www/shop/scripts/stop.sh''"
    "path_join [''/var/www/shop/scripts'', ''restart.sh''] = ''/var/www/shop/scripts/restart.sh''"
    "path_join [''/var/www/shop/scripts'', ''status.sh''] = ''/var/www/shop/scripts/status.sh''"
    "path_join [''/var/www/shop/scripts'', ''deploy.sh''] = ''/var/www/shop/scripts/deploy.sh''"
    by (simp_all add: path_join_def path_normalize_def normalizeString_def normalize_step_def
        SCRIPTS_start_def SCRIPTS_stop_def)
  show ?thesis
    unfolding script_files_def Let_def d f ..
qed

theorem generateScripts_writes_a_prefix_witness:
  "\<exists>k \<le> 5.
      list_all (holds_new (snd (generateScripts ''shop'' locked_world)))
        (take k (script_files ''shop'' shop_services))
    \<and> list_all (\<lambda>pc. untouched locked_world (snd (generateScripts ''shop'' locked_world)) pc
          \<or> cut_short (snd (generateScripts ''shop'' locked_world)) pc)
        (take 1 (drop k (script_files ''shop'' shop_services)))
    \<and> list_all (untouched locked_world (snd (generateScripts ''shop'' locked_world)))
        (drop (Suc k) (script_files ''shop'' shop_services))"
proof -
  have c: "project_configs locked_world ''shop'' = Some \<lparr>cfg_services = Some shop_services\<rparr>"
    by (simp add: locked_world_def shop_world_def)
  have s: "config_services (Some \<lparr>cfg_services = Some shop_services\<rparr>) = shop_services"
    by (simp add: config_services_def)
  have "generateScripts ''shop'' locked_world =
      (fst (generateScripts ''shop'' locked_world), snd (generateScripts ''shop'' locked_world))"
    by simp
  from generateScripts_writes_a_prefix[OF this] c s show ?thesis
    by auto
qed

lemma shebang_prefix: "\<exists>Y. (CHR ''#'' # CHR ''!'' # A) @ R = ''#!'' @ Y"
  by simp

lemma generateDeployScript_shebang: "\<exists>Z. generateDeployScript p s = ''#!'' @ Z"
proof -
  obtain Y where h: "deploy_header p = ''#!'' @ Y"
    unfolding deploy_header_def using shebang_prefix by blast
  have "\<exists>X. generateDeployScript p s = deploy_header p @ X"
  proof (cases "length s = 0")
    case True
    then show ?thesis
      by (simp only: generateDeployScript_def Let_def if_True simp_thms) blast
  next
    case False
    then have "(length s = 0) = False"
      by simp
    then show ?thesis
      by (simp only: generateDeployScript_def Let_def if_False deploy_loop append_assoc
          simp_thms) blast
  qed
  then obtain X where "generateDeployScript p s = deploy_header p @ X"
    by blast
  then have "generateDeployScript p s = ''#!'' @ (Y @ X)"
    by (simp only: h append_assoc)
  then show ?thesis
    by blast
qed

text \<open>
  C5, as first stated, allows no mix of old and new files. In the example world the
  write of \<^verbatim>\<open>restart.sh\<close> fails: the call fails, \<^verbatim>\<open>start.sh\<close> then holds the new text and
  is no longer the file it was, \<^verbatim>\<open>restart.sh\<close> is left empty, while \<^verbatim>\<open>deploy.sh\<close> is the
  old file and does not hold the new text.
\<close>

theorem generateScripts_partial_write_counterexample:
  "fst (generateScripts ''shop'' locked_world) = Inl (WriteFailed ''/var/www/shop/scripts/restart.sh'')
   \<and> holds_new (snd (generateScripts ''shop'' locked_world))
        (''/var/www/shop/scripts/start.sh'', generateStartScript ''shop'' shop_services)
   \<and> \<not> untouched locked_world (snd (generateScripts ''shop'' locked_world))
        (''/var/www/shop/scripts/start.sh'', generateStartScript ''shop'' shop_services)
   \<and> map_option content
        (files (snd (generateScripts ''shop'' locked_world)) ''/var/www/shop/scripts/restart.sh'')
      = Some []
   \<and> untouched locked_world (snd (generateScripts ''shop'' locked_world))
        (''/var/www/shop/scripts/deploy.sh'', generateDeployScript ''shop'' shop_services)
   \<and> \<not> holds_new (snd (generateScripts ''shop'' locked_world))
        (''/var/www/shop/scripts/deploy.sh'', generateDeployScript ''shop'' shop_services)"
proof -
  obtain Z where z: "generateDeployScript ''shop'' shop_services = ''#!'' @ Z"
    using generateDeployScript_shebang by blast
  have c: "project_configs locked_world ''shop'' = Some \<lparr>cfg_services = Some shop_services\<rparr>"
    by (simp add: locked_world_def shop_world_def)
  have s: "config_services (Some \<lparr>cfg_services = Some shop_services\<rparr>) = shop_services"
    by (simp add: config_services_def)
  have d: "path_join [BASE_PATH, ''shop'', PROJECT_STRUCTURE_scripts] = ''/var/www/shop/scripts''"
    by (simp add: path_join_def path_normalize_def normalizeString_def normalize_step_def
        BASE_PATH_def PROJECT_STRUCTURE_scripts_def)
  show ?thesis
    unfolding generateScripts_steps[OF c] s shop_script_files d
    by (simp add: emit_def fs_existsSync_def fs_writeFileSync_def fs_chmodSync_def
        logger_debug_def locked_world_def shop_world_def holds_new_def untouched_def
        old_script_def z)
qed

subsection \<open>Regenerating the scripts of all projects\<close>

lemma quiet_run_all:
  assumes "list_all quiet as"
  shows "quiet (run_all as)"
  using assms
proof (induction as)
  case Nil
  show ?case by (simp add: quiet_def)
next
  case (Cons a as)
  then have a: "quiet a" and as: "quiet (run_all as)"
    by simp_all
  show ?case
    unfolding quiet_def
  proof
    fix w
    obtain r1 w1 where e: "a w = (r1, w1)"
      by (cases "a w") auto
    from a obtain ds1 where d1: "logs w1 = logs w @ ds1" "list_all is_debug ds1"
      unfolding quiet_def using e by (metis snd_conv)
    show "\<exists>ds. logs (snd (run_all (a # as) w)) = logs w @ ds \<and> list_all is_debug ds"
    proof (cases r1)
      case (Inl err)
      with e d1 show ?thesis by simp
    next
      case (Inr u)
      from as obtain ds2 where "logs (snd (run_all as w1)) = logs w1 @ ds2" "list_all is_debug ds2"
        unfolding quiet_def by blast
      with e d1 Inr have "logs (snd (run_all (a # as) w)) = logs w @ (ds1 @ ds2)
          \<and> list_all is_debug (ds1 @ ds2)"
        by simp
      then show ?thesis by blast
    qed
  qed
qed

lemma quiet_emit: "list_all quiet (emit pc)"
  by (simp add: emit_def quiet_def fs_writeFileSync_def fs_chmodSync_def logger_debug_def
      is_debug_def Let_def split: option.splits write_failure.splits)

lemma quiet_emits: "list_all quiet (concat (map emit pcs))"
  by (induction pcs) (simp_all add: quiet_emit)

lemma quiet_ensure:
  "quiet (\<lambda>w. if \<not> fs_existsSync w d then fs_mkdirSync d w else (Inr (), w))"
  by (simp add: quiet_def fs_mkdirSync_def)

lemma generateScripts_logs:
  "\<exists>ds. list_all is_debug ds \<and>
     logs (snd (generateScripts p w)) = logs w @ ds @
       (case fst (generateScripts p w) of
          Inl e \<Rightarrow> []
        | Inr u \<Rightarrow> [Success (''Scripts g'' @ e_acute @ ''n'' @ e_acute @ ''r'' @ e_acute @
            ''s pour '' @ p)])"
proof (cases "project_configs w p")
  case None
  then have "generateScripts p w = (Inl (ConfigNotFound p), w)"
    by (simp add: generateScripts_def loadProjectConfig_def)
  then show ?thesis
    by (intro exI[of _ "[]"]) simp
next
  case (Some cfg)
  define pre where "pre =
      [\<lambda>w. if \<not> fs_existsSync w (path_join [BASE_PATH, p, PROJECT_STRUCTURE_scripts])
            then fs_mkdirSync (path_join [BASE_PATH, p, PROJECT_STRUCTURE_scripts]) w
            else (Inr (), w)] @
      concat (map emit (script_files p (config_services (Some cfg))))"
  define msg where "msg = ''Scripts g'' @ e_acute @ ''n'' @ e_acute @ ''r'' @ e_acute @
      ''s pour '' @ p"
  have "list_all quiet pre"
    unfolding pre_def by (simp add: quiet_ensure quiet_emits)
  then have "quiet (run_all pre)"
    by (rule quiet_run_all)
  then obtain ds where ds: "logs (snd (run_all pre w)) = logs w @ ds" "list_all is_debug ds"
    unfolding quiet_def by blast
  have steps: "generateScripts p w = run_all (pre @ [logger_success msg]) w"
    unfolding pre_def msg_def using generateScripts_steps[OF Some] by simp
  obtain r1 w1 where e: "run_all pre w = (r1, w1)"
    by (cases "run_all pre w") auto
  show ?thesis
  proof (cases r1)
    case (Inl err)
    with e ds show ?thesis
      unfolding steps msg_def[symmetric]
      by (intro exI[of _ ds]) (simp add: run_all_append)
  next
    case (Inr u)
    with e ds show ?thesis
      unfolding steps msg_def[symmetric]
      by (intro exI[of _ ds]) (simp add: run_all_append logger_success_def)
  qed
qed

lemma regenerate_project_logs:
  "\<exists>ds. list_all is_debug ds \<and>
     logs (regenerate_project w project) =
       logs w @ ds @ [outcome_entry project (hd (project_outcomes w [project]))]"
proof -
  obtain r1 w1 where e: "generateScripts (project_name project) w = (r1, w1)"
    by (cases "generateScripts (project_name project) w") auto
  from generateScripts_logs[of "project_name project" w] e
  obtain ds where ds: "list_all is_debug ds"
    and l: "logs w1 = logs w @ ds @
       (case r1 of Inl e \<Rightarrow> []
        | Inr u \<Rightarrow> [Success (''Scripts g'' @ e_acute @ ''n'' @ e_acute @ ''r'' @ e_acute @
            ''s pour '' @ project_name project)])"
    by auto
  show ?thesis
  proof (cases r1)
    case (Inl err)
    with e l ds show ?thesis
      by (intro exI[of _ ds])
        (simp add: regenerate_project_def logger_error_def outcome_entry_def)
  next
    case (Inr u)
    with e l ds show ?thesis
      by (intro exI[of _ ds]) (simp add: regenerate_project_def outcome_entry_def)
  qed
qed

lemma not_debug_outcome: "\<not> is_debug (outcome_entry project failure)"
  by (simp add: outcome_entry_def is_debug_def split: option.splits)

lemma filter_debug_Nil: "list_all is_debug ds \<Longrightarrow> filter (\<lambda>e. \<not> is_debug e) ds = []"
  by (induction ds) simp_all

lemma regenerate_loop_logs:
  "\<exists>outs. logs (foldl regenerate_project w ps) = logs w @ outs \<and>
     filter (\<lambda>e. \<not> is_debug e) outs =
       map (\<lambda>(project, failure). outcome_entry project failure)
         (zip ps (project_outcomes w ps))"
proof (induction ps arbitrary: w)
  case Nil
  show ?case by simp
next
  case (Cons project ps)
  from regenerate_project_logs[of w project] obtain ds where ds: "list_all is_debug ds"
    and l: "logs (regenerate_project w project) =
       logs w @ ds @ [outcome_entry project (hd (project_outcomes w [project]))]"
    by blast
  from Cons.IH[of "regenerate_project w project"] obtain outs where
    o: "logs (foldl regenerate_project (regenerate_project w project) ps) =
       logs (regenerate_project w project) @ outs"
    and f: "filter (\<lambda>e. \<not> is_debug e) outs =
       map (\<lambda>(project, failure). outcome_entry project failure)
         (zip ps (project_outcomes (regenerate_project w project) ps))"
    by blast
  have "logs (foldl regenerate_project w (project # ps)) =
      logs w @ (ds @ [outcome_entry project (hd (project_outcomes w [project]))] @ outs)"
    using o l by simp
  moreover have "filter (\<lambda>e. \<not> is_debug e)
      (ds @ [outcome_entry project (hd (project_outcomes w [project]))] @ outs) =
      map (\<lambda>(project, failure). outcome_entry project failure)
         (zip (project # ps) (project_outcomes w (project # ps)))"
    using f by (simp add: filter_debug_Nil[OF ds] not_debug_outcome)
  ultimately show ?case
    by blast
qed

lemma project_outcomes_length: "length (project_outcomes w ps) = length ps"
  by (induction ps arbitrary: w) simp_all

lemma regenerateAllScripts_load_failure:
  "loadProjects w = Inl e \<Longrightarrow> regenerateAllScripts w = (Inl e, w)"
  by (simp add: regenerateAllScripts_def)

text \<open>
  C8 (as amended). When \<^verbatim>\<open>projects.loadProjects\<close> returns the stored projects,
  \<open>regenerateAllScripts\<close> runs \<open>generateScripts\<close> for every one of them, in stored order,
  whether or not the projects before it failed. It returns no value. What it reports
  goes to the log: between debug entries, one entry per project, in order, a success
  entry for a project whose scripts were generated and an error entry with the
  project's name and the message for one that failed; then, whatever happened, one
  success entry for the whole run.
\<close>

theorem regenerateAllScripts_reports_in_log:
  assumes "loadProjects w = Inr ps"
  shows "length (project_outcomes w ps) = length ps
   \<and> (\<exists>outs. logs (snd (regenerateAllScripts w)) = logs w @ outs @ [Success all_done_message]
        \<and> filter (\<lambda>e. \<not> is_debug e) outs =
            map (\<lambda>(project, failure). outcome_entry project failure)
              (zip ps (project_outcomes w ps)))"
proof -
  from regenerate_loop_logs[of w ps] obtain outs where
    "logs (foldl regenerate_project w ps) = logs w @ outs"
    and f: "filter (\<lambda>e. \<not> is_debug e) outs =
       map (\<lambda>(project, failure). outcome_entry project failure)
         (zip ps (project_outcomes w ps))"
    by blast
  then have "logs (snd (regenerateAllScripts w)) = logs w @ outs @ [Success all_done_message]"
    using assms
    by (simp add: regenerateAllScripts_def logger_success_def all_done_message_def Let_def)
  with f have "\<exists>outs. logs (snd (regenerateAllScripts w)) =
        logs w @ outs @ [Success all_done_message]
      \<and> filter (\<lambda>e. \<not> is_debug e) outs =
          map (\<lambda>(project, failure). outcome_entry project failure)
            (zip ps (project_outcomes w ps))"
    by blast
  then show ?thesis
    using project_outcomes_length by blast
qed

theorem regenerateAllScripts_reports_in_log_witness:
  "loadProjects shop_world = Inr [\<lparr>project_name = ''ghost''\<rparr>, \<lparr>project_name = ''shop''\<rparr>]
   \<and> (\<exists>outs. logs (snd (regenerateAllScripts shop_world)) =
          logs shop_world @ outs @ [Success all_done_message]
        \<and> filter (\<lambda>e. \<not> is_debug e) outs =
            map (\<lambda>(project, failure). outcome_entry project failure)
              (zip [\<lparr>project_name = ''ghost''\<rparr>, \<lparr>project_name = ''shop''\<rparr>]
                 (project_outcomes shop_world
                    [\<lparr>project_name = ''ghost''\<rparr>, \<lparr>project_name = ''shop''\<rparr>])))"
proof -
  have l: "loadProjects shop_world =
      Inr [\<lparr>project_name = ''ghost''\<rparr>, \<lparr>project_name = ''shop''\<rparr>]"
    by (simp add: loadProjects_def shop_world_def)
  from regenerateAllScripts_reports_in_log[OF l] l show ?thesis
    by blast
qed

text \<open>
  C8, as first stated, has the aggregate outcome reported as a list of outcomes
  per project. In the example world the project \<open>ghost\<close> has no configuration and its
  generation fails; the call returns normally, without a value, and what it reports
  for the whole run is the success entry.
\<close>

theorem regenerateAllScripts_opaque_counterexample:
  "fst (generateScripts ''ghost'' shop_world) = Inl (ConfigNotFound ''ghost'')
   \<and> regenerateAllScripts shop_world = (Inr (), snd (regenerateAllScripts shop_world))
   \<and> last (logs (snd (regenerateAllScripts shop_world))) = Success all_done_message"
  by (simp add: regenerateAllScripts_def loadProjects_def logger_success_def
      all_done_message_def Let_def generateScripts_def loadProjectConfig_def shop_world_def)

end
